theory Spec2Isabelle
  imports Complex_Main "HOL-Library.Sublist"
begin

section \<open>Technical-indicator engine of IndicatorsPage.jsx\<close>

text \<open>
  The calculation functions of \<^verbatim>\<open>src/pages/IndicatorsPage.jsx\<close> are embedded as HOL
  functions. Conventions of the embedding:
  \<^item> a JavaScript number is a \<open>real\<close>: arithmetic is exact, and the special values
    \<^verbatim>\<open>NaN\<close> and \<^verbatim>\<open>Infinity\<close> do not exist;
  \<^item> a \<^verbatim>\<open>Date\<close> is its time value \<^verbatim>\<open>getTime()\<close>, an \<open>int\<close> of milliseconds
    since the epoch;
  \<^item> an array is a list, an object with fixed fields is a record;
  \<^item> a period argument is a \<open>nat\<close>. With period \<open>0\<close> the source divides zero by zero
    or reads \<^verbatim>\<open>data[-1]\<close>; that outcome is the constructor \<open>Outside\<close>.
\<close>

subsection \<open>Data model\<close>

record dated =
  date :: int

record closePoint = dated +
  close :: real

record indicatorPoint = dated +
  "value" :: real

datatype 'a outcome = Null | Outside | Returns 'a

subsection \<open>JavaScript Map\<close>

text \<open>
  \<^verbatim>\<open>new Map(entries)\<close> inserts the entries from first to last, so a later entry with the
  same key replaces an earlier one. \<^verbatim>\<open>map.get(k) ?? 0\<close> is \<open>get_or_0\<close>: the values stored
  are numbers, so only a missing key gives the default.
\<close>

definition new_Map :: "(int \<times> 'v) list \<Rightarrow> (int \<rightharpoonup> 'v)" where
  "new_Map entries = foldl (\<lambda>m (k, v). m(k \<mapsto> v)) Map.empty entries"

definition get_or_0 :: "(int \<rightharpoonup> real) \<Rightarrow> int \<Rightarrow> real" where
  "get_or_0 m k = (case m k of None \<Rightarrow> 0 | Some v \<Rightarrow> v)"

subsection \<open>calculateSMA\<close>

text \<open>
  \<^verbatim>\<open>
  const calculateSMA = (data, period) => {
    if (!Array.isArray(data) || data.length < period) return null;
    const out = [];
    let sum = 0;
    for (let i = 0; i < data.length; i++) {
      sum += data[i].close;
      if (i >= period) sum -= data[i - period].close;
      if (i >= period - 1) {
        out.push({ date: data[i].date, value: sum / period });
      }
    }
    return out;
  };
  \<close>
  The loop is \<open>sma_loop\<close>, with the loop variables \<open>i\<close>, \<open>sum\<close> (here \<open>sum0\<close>) and
  \<open>out\<close> as arguments. The test \<^verbatim>\<open>i >= period - 1\<close> is written \<open>period \<le> i + 1\<close>, the same
  test without a subtraction on \<open>nat\<close>.
\<close>

function sma_loop ::
  "('a closePoint_scheme) list \<Rightarrow> nat \<Rightarrow> nat \<Rightarrow> real \<Rightarrow> indicatorPoint list \<Rightarrow> indicatorPoint list"
where
  "sma_loop data period i sum0 out =
     (if i < length data then
        let sum1 = sum0 + close (data ! i);
            sum2 = (if period \<le> i then sum1 - close (data ! (i - period)) else sum1);
            out2 = (if period \<le> i + 1
                    then out @ [\<lparr>date = date (data ! i), value = sum2 / real period\<rparr>]
                    else out)
        in sma_loop data period (i + 1) sum2 out2
      else out)"
  by pat_completeness auto
termination
  by (relation "measure (\<lambda>(data, period, i, sum0, out). length data - i)") auto

definition calculateSMA ::
  "('a closePoint_scheme) list \<Rightarrow> nat \<Rightarrow> indicatorPoint list outcome"
where
  "calculateSMA data period =
     (if length data < period then Null
      else if period = 0 then Outside
      else Returns (sma_loop data period 0 0 []))"

text \<open>The sum of the closes at the indices \<open>i - period, \<dots>, i - 1\<close> (from \<open>0\<close> when
  \<open>i < period\<close>): the running sum of the loop before iteration \<open>i\<close>.\<close>

definition window_sum :: "('a closePoint_scheme) list \<Rightarrow> nat \<Rightarrow> nat \<Rightarrow> real" where
  "window_sum data period i = (\<Sum>k = i - period..<i. close (data ! k))"

text \<open>The arithmetic mean of the closes in the trailing window of size \<open>period\<close> that ends
  at index \<open>i\<close>.\<close>

definition trailing_mean :: "('a closePoint_scheme) list \<Rightarrow> nat \<Rightarrow> nat \<Rightarrow> real" where
  "trailing_mean data period i = (\<Sum>k = i + 1 - period..i. close (data ! k)) / real period"

subsection \<open>calculateEMA\<close>

text \<open>
  \<^verbatim>\<open>
  const calculateEMA = (data, period) => {
    if (!Array.isArray(data) || data.length < period) return null;
    const out = [];
    const k = 2 / (period + 1);
    let ema = data.slice(0, period).reduce((s, d) => s + d.close, 0) / period;
    for (let i = period - 1; i < data.length; i++) {
      if (i > period - 1) {
        ema = data[i].close * k + ema * (1 - k);
      }
      out.push({ date: data[i].date, value: ema });
    }
    return out;
  };
  \<close>
  With period \<open>0\<close> the loop starts at \<open>i = -1\<close> and reading \<^verbatim>\<open>data[-1].date\<close> throws.
  The test \<^verbatim>\<open>i > period - 1\<close> is \<open>period \<le> i\<close>.
\<close>

function ema_loop ::
  "('a closePoint_scheme) list \<Rightarrow> nat \<Rightarrow> real \<Rightarrow> nat \<Rightarrow> real \<Rightarrow> indicatorPoint list
     \<Rightarrow> indicatorPoint list"
where
  "ema_loop data period k i ema out =
     (if i < length data then
        let ema2 = (if period \<le> i then close (data ! i) * k + ema * (1 - k) else ema)
        in ema_loop data period k (i + 1) ema2 (out @ [\<lparr>date = date (data ! i), value = ema2\<rparr>])
      else out)"
  by pat_completeness auto
termination
  by (relation "measure (\<lambda>(data, period, k, i, ema, out). length data - i)") auto

definition calculateEMA ::
  "('a closePoint_scheme) list \<Rightarrow> nat \<Rightarrow> indicatorPoint list outcome"
where
  "calculateEMA data period =
     (if length data < period then Null
      else if period = 0 then Outside
      else
        let k = 2 / (real period + 1);
            ema = foldl (\<lambda>s d. s + close d) 0 (take period data) / real period
        in Returns (ema_loop data period k (period - 1) ema []))"

subsection \<open>calculateMACD\<close>

text \<open>
  \<^verbatim>\<open>
  const calculateMACD = (data, fast = 12, slow = 26, sig = 9) => {
    if (!Array.isArray(data) || data.length < slow + sig) return null;
    const emaFast = calculateEMA(data, fast);
    const emaSlow = calculateEMA(data, slow);
    if (!emaFast || !emaSlow) return null;
    const macdLine = [];
    const macdMap = new Map(emaFast.map(e => [e.date.getTime(), e.value]));
    const slowMap = new Map(emaSlow.map(e => [e.date.getTime(), e.value]));
    for (let i = slow - 1; i < data.length; i++) {
      const ts = data[i].date.getTime();
      const m = (macdMap.get(ts) ?? 0) - (slowMap.get(ts) ?? 0);
      macdLine.push({ date: data[i].date, value: m });
    }
    const signalLine = calculateEMA(macdLine.map(m => ({ ...m, close: m.value })), sig);
    if (!signalLine) return null;
    const histogram = [];
    const sigMap = new Map(signalLine.map(s => [s.date.getTime(), s.value]));
    for (const ml of macdLine) {
      const ts = ml.date.getTime();
      const h = ml.value - (sigMap.get(ts) ?? 0);
      histogram.push({ date: ml.date, value: h });
    }
    return { macdLine, signalLine, histogram };
  };
  \<close>
  The two \<^verbatim>\<open>for\<close> loops carry no state from one iteration to the next and are maps
  over the indices and over \<^verbatim>\<open>macdLine\<close>. An exception of \<^verbatim>\<open>calculateEMA\<close> (period
  \<open>0\<close>) leaves \<^verbatim>\<open>calculateMACD\<close> at the call that raised it.
\<close>

record macdResult =
  macdLine :: "indicatorPoint list"
  signalLine :: "indicatorPoint list"
  histogram :: "indicatorPoint list"

definition entries :: "indicatorPoint list \<Rightarrow> (int \<times> real) list" where
  "entries xs = map (\<lambda>e. (date e, value e)) xs"

definition macd_points ::
  "('a closePoint_scheme) list \<Rightarrow> nat \<Rightarrow> (int \<rightharpoonup> real) \<Rightarrow> (int \<rightharpoonup> real)
     \<Rightarrow> indicatorPoint list"
where
  "macd_points data slow macdMap slowMap =
     map (\<lambda>i. let ts = date (data ! i);
                   m = get_or_0 macdMap ts - get_or_0 slowMap ts
               in \<lparr>date = date (data ! i), value = m\<rparr>)
         [slow - 1..<length data]"

definition histogram_points :: "indicatorPoint list \<Rightarrow> (int \<rightharpoonup> real) \<Rightarrow> indicatorPoint list" where
  "histogram_points ml_list sigMap =
     map (\<lambda>ml. let ts = date ml;
                    h = value ml - get_or_0 sigMap ts
                in \<lparr>date = date ml, value = h\<rparr>)
         ml_list"

definition calculateMACD ::
  "('a closePoint_scheme) list \<Rightarrow> nat \<Rightarrow> nat \<Rightarrow> nat \<Rightarrow> macdResult outcome"
where
  "calculateMACD data fast slow sig =
     (if length data < slow + sig then Null
      else case calculateEMA data fast of
        Outside \<Rightarrow> Outside
      | Null \<Rightarrow>
          (case calculateEMA data slow of Outside \<Rightarrow> Outside | _ \<Rightarrow> Null)
      | Returns emaFast \<Rightarrow>
          (case calculateEMA data slow of
             Outside \<Rightarrow> Outside
           | Null \<Rightarrow> Null
           | Returns emaSlow \<Rightarrow>
               let macdMap = new_Map (entries emaFast);
                   slowMap = new_Map (entries emaSlow);
                   ml_list = macd_points data slow macdMap slowMap
               in case calculateEMA (map (\<lambda>m. \<lparr>date = date m, close = value m\<rparr>) ml_list) sig of
                    Outside \<Rightarrow> Outside
                  | Null \<Rightarrow> Null
                  | Returns sl \<Rightarrow>
                      Returns \<lparr>macdLine = ml_list, signalLine = sl,
                           histogram = histogram_points ml_list (new_Map (entries sl))\<rparr>))"

text \<open>The set of dates that a series contains.\<close>

definition dateSet :: "('a dated_scheme) list \<Rightarrow> int set" where
  "dateSet xs = set (map date xs)"

subsection \<open>calculateRSI\<close>

text \<open>
  \<^verbatim>\<open>
  const calculateRSI = (data, period = 14) => {
    if (!Array.isArray(data) || data.length < period + 1) return null;
    const changes = [];
    for (let i = 1; i < data.length; i++) {
      changes.push(data[i].close - data[i - 1].close);
    }
    const out = [];
    let gains = 0, losses = 0;
    for (let i = 0; i < period; i++) {
      if (changes[i] > 0) gains += changes[i];
      else losses += -changes[i];
    }
    let avgGain = gains / period;
    let avgLoss = losses / period;
    for (let i = period; i < changes.length; i++) {
      const change = changes[i];
      if (change > 0) {
        avgGain = (avgGain * (period - 1) + change) / period;
        avgLoss = (avgLoss * (period - 1)) / period;
      } else {
        avgGain = (avgGain * (period - 1)) / period;
        avgLoss = (avgLoss * (period - 1) - change) / period;
      }
      const rs = avgLoss === 0 ? 100 : avgGain / avgLoss;
      const rsi = 100 - (100 / (1 + rs));
      out.push({ date: data[i + 1].date, value: rsi });
    }
    return out;
  };
  \<close>
  The first loop is \<open>price_changes\<close>, the second \<open>seed_loop\<close> on the pair
  \<open>(gains, losses)\<close>, the third \<open>rsi_loop\<close>. With period \<open>0\<close> and a non-empty series
  the seeds are \<^verbatim>\<open>0 / 0\<close>.
\<close>

definition price_changes :: "('a closePoint_scheme) list \<Rightarrow> real list" where
  "price_changes data = map (\<lambda>i. close (data ! i) - close (data ! (i - 1))) [1..<length data]"

function seed_loop :: "real list \<Rightarrow> nat \<Rightarrow> nat \<Rightarrow> real \<times> real \<Rightarrow> real \<times> real" where
  "seed_loop changes period i (gains, losses) =
     (if i < period then
        (if changes ! i > 0 then seed_loop changes period (i + 1) (gains + changes ! i, losses)
         else seed_loop changes period (i + 1) (gains, losses + - (changes ! i)))
      else (gains, losses))"
  by pat_completeness auto
termination
  by (relation "measure (\<lambda>(changes, period, i, gl). period - i)") auto

function rsi_loop ::
  "('a closePoint_scheme) list \<Rightarrow> real list \<Rightarrow> nat \<Rightarrow> nat \<Rightarrow> real \<Rightarrow> real
     \<Rightarrow> indicatorPoint list \<Rightarrow> indicatorPoint list"
where
  "rsi_loop data changes period i avgGain avgLoss out =
     (if i < length changes then
        let change = changes ! i;
            avgGain2 = (if change > 0 then (avgGain * (real period - 1) + change) / real period
                        else (avgGain * (real period - 1)) / real period);
            avgLoss2 = (if change > 0 then (avgLoss * (real period - 1)) / real period
                        else (avgLoss * (real period - 1) - change) / real period);
            rs = (if avgLoss2 = 0 then 100 else avgGain2 / avgLoss2);
            rsi = 100 - (100 / (1 + rs))
        in rsi_loop data changes period (i + 1) avgGain2 avgLoss2
             (out @ [\<lparr>date = date (data ! (i + 1)), value = rsi\<rparr>])
      else out)"
  by pat_completeness auto
termination
  by (relation "measure (\<lambda>(data, changes, period, i, avgGain, avgLoss, out). length changes - i)")
     auto

definition calculateRSI ::
  "('a closePoint_scheme) list \<Rightarrow> nat \<Rightarrow> indicatorPoint list outcome"
where
  "calculateRSI data period =
     (if length data < period + 1 then Null
      else if period = 0 then Outside
      else
        let changes = price_changes data;
            (gains, losses) = seed_loop changes period 0 (0, 0);
            avgGain = gains / real period;
            avgLoss = losses / real period
        in Returns (rsi_loop data changes period period avgGain avgLoss []))"

text \<open>A point whose value lies in the interval from \<open>0\<close> to \<open>100\<close>.\<close>

definition in_range :: "indicatorPoint \<Rightarrow> bool" where
  "in_range p = (0 \<le> value p \<and> value p \<le> 100)"

subsection \<open>Pivot detection of calculateDivergence\<close>

text \<open>
  \<^verbatim>\<open>
  const isPivotLow = (arr, i, lbL, lbR) => {
    if (i < lbL || i >= arr.length - lbR) return false;
    const val = arr[i];
    for (let j = 1; j <= lbL; j++) if (arr[i - j] < val) return false;
    for (let j = 1; j <= lbR; j++) if (arr[i + j] <= val) return false;
    return true;
  };
  const isPivotHigh = (arr, i, lbL, lbR) => {
    if (i < lbL || i >= arr.length - lbR) return false;
    const val = arr[i];
    for (let j = 1; j <= lbL; j++) if (arr[i - j] > val) return false;
    for (let j = 1; j <= lbR; j++) if (arr[i + j] >= val) return false;
    return true;
  };
  \<close>
  Each loop is a function of its counter \<open>j\<close> that is \<open>False\<close> as soon as the source
  returns \<^verbatim>\<open>false\<close> and \<open>True\<close> when the loop runs to its end. The guard
  \<^verbatim>\<open>i >= arr.length - lbR\<close> is \<open>length arr \<le> i + lbR\<close>, the same test without a
  subtraction on \<open>nat\<close>. After the guard every index read lies inside the array.
\<close>

function low_left :: "real list \<Rightarrow> nat \<Rightarrow> real \<Rightarrow> nat \<Rightarrow> nat \<Rightarrow> bool" where
  "low_left arr i val lbL j =
     (if j \<le> lbL then (if arr ! (i - j) < val then False else low_left arr i val lbL (j + 1))
      else True)"
  by pat_completeness auto
termination
  by (relation "measure (\<lambda>(arr, i, val, lbL, j). lbL + 1 - j)") auto

function low_right :: "real list \<Rightarrow> nat \<Rightarrow> real \<Rightarrow> nat \<Rightarrow> nat \<Rightarrow> bool" where
  "low_right arr i val lbR j =
     (if j \<le> lbR then (if arr ! (i + j) \<le> val then False else low_right arr i val lbR (j + 1))
      else True)"
  by pat_completeness auto
termination
  by (relation "measure (\<lambda>(arr, i, val, lbR, j). lbR + 1 - j)") auto

definition isPivotLow :: "real list \<Rightarrow> nat \<Rightarrow> nat \<Rightarrow> nat \<Rightarrow> bool" where
  "isPivotLow arr i lbL lbR =
     (if i < lbL \<or> length arr \<le> i + lbR then False
      else let val = arr ! i
           in if \<not> low_left arr i val lbL 1 then False
              else if \<not> low_right arr i val lbR 1 then False
              else True)"

function high_left :: "real list \<Rightarrow> nat \<Rightarrow> real \<Rightarrow> nat \<Rightarrow> nat \<Rightarrow> bool" where
  "high_left arr i val lbL j =
     (if j \<le> lbL then (if arr ! (i - j) > val then False else high_left arr i val lbL (j + 1))
      else True)"
  by pat_completeness auto
termination
  by (relation "measure (\<lambda>(arr, i, val, lbL, j). lbL + 1 - j)") auto

function high_right :: "real list \<Rightarrow> nat \<Rightarrow> real \<Rightarrow> nat \<Rightarrow> nat \<Rightarrow> bool" where
  "high_right arr i val lbR j =
     (if j \<le> lbR then (if arr ! (i + j) \<ge> val then False else high_right arr i val lbR (j + 1))
      else True)"
  by pat_completeness auto
termination
  by (relation "measure (\<lambda>(arr, i, val, lbR, j). lbR + 1 - j)") auto

definition isPivotHigh :: "real list \<Rightarrow> nat \<Rightarrow> nat \<Rightarrow> nat \<Rightarrow> bool" where
  "isPivotHigh arr i lbL lbR =
     (if i < lbL \<or> length arr \<le> i + lbR then False
      else let val = arr ! i
           in if \<not> high_left arr i val lbL 1 then False
              else if \<not> high_right arr i val lbR 1 then False
              else True)"

subsection \<open>resampleData\<close>

text \<open>
  \<^verbatim>\<open>
  const resampleData = (data, maxPoints = 50) => {
    if (!Array.isArray(data) || data.length <= maxPoints) return data;
    const step = Math.ceil(data.length / maxPoints);
    return data.filter((_, i) => i % step === 0 || i === data.length - 1);
  };
  \<close>
  \<open>filteri\<close> is \<^verbatim>\<open>Array.prototype.filter\<close> with a callback that takes the element and its
  index. With \<open>maxPoints = 0\<close> the step is \<^verbatim>\<open>Infinity\<close> and \<^verbatim>\<open>i % Infinity\<close> is \<open>i\<close>.
\<close>

definition filteri :: "('a \<Rightarrow> nat \<Rightarrow> bool) \<Rightarrow> 'a list \<Rightarrow> 'a list" where
  "filteri p xs = map snd (filter (\<lambda>(i, x). p x i) (enumerate 0 xs))"

definition resampleData :: "'a list \<Rightarrow> nat \<Rightarrow> 'a list" where
  "resampleData data maxPoints =
     (if length data \<le> maxPoints then data
      else if maxPoints = 0 then filteri (\<lambda>_ i. i = 0 \<or> i = length data - 1) data
      else
        let step = nat \<lceil>real (length data) / real maxPoints\<rceil>
        in filteri (\<lambda>_ i. i mod step = 0 \<or> i = length data - 1) data)"

subsection \<open>calculateFibonacci\<close>

text \<open>
  \<^verbatim>\<open>
  const calculateFibonacci = (data) => {
    if (!Array.isArray(data) || data.length < 2) return null;
    const closes = data.map(d => d.close).filter(v => typeof v === 'number');
    if (closes.length < 2) return null;
    const high = Math.max(...closes);
    const low = Math.min(...closes);
    const diff = high - low;
    const levels = [
      { level: '100% (Low)', value: low, color: '#ff5252' },
      { level: '78.6%', value: high - diff * 0.786, color: '#ffb74d' },
      { level: '61.8%', value: high - diff * 0.618, color: '#ffd740' },
      { level: '50%', value: high - diff * 0.5, color: '#aeea00' },
      { level: '38.2%', value: high - diff * 0.382, color: '#ffd740' },
      { level: '23.6%', value: high - diff * 0.236, color: '#ffb74d' },
      { level: '0% (High)', value: high, color: '#448aff' }
    ];
    return { high, low, levels };
  };
  \<close>
  This function tests the type of each close, so its input points carry a \<open>jsvalue\<close>:
  a number or a value of another type. The field \<^verbatim>\<open>value\<close> of a level is \<open>level_value\<close>.
\<close>

datatype jsvalue = Num real | Other

record rawPoint = dated +
  raw_close :: jsvalue

fun typeof_number :: "jsvalue \<Rightarrow> bool" where
  "typeof_number (Num x) = True"
| "typeof_number Other = False"

fun the_number :: "jsvalue \<Rightarrow> real" where
  "the_number (Num x) = x"
| "the_number Other = 0"

definition numeric_closes :: "('a rawPoint_scheme) list \<Rightarrow> real list" where
  "numeric_closes data = map the_number (filter typeof_number (map raw_close data))"

record fibLevel =
  level :: string
  level_value :: real
  color :: string

record fibonacciResult =
  high :: real
  low :: real
  levels :: "fibLevel list"

definition calculateFibonacci :: "('a rawPoint_scheme) list \<Rightarrow> fibonacciResult outcome" where
  "calculateFibonacci data =
     (if length data < 2 then Null
      else
        let closes = numeric_closes data
        in if length closes < 2 then Null
           else
             let high = Max (set closes);
                 low = Min (set closes);
                 diff = high - low;
                 levels = [
                   \<lparr>level = ''100% (Low)'', level_value = low, color = ''#ff5252''\<rparr>,
                   \<lparr>level = ''78.6%'', level_value = high - diff * 0.786, color = ''#ffb74d''\<rparr>,
                   \<lparr>level = ''61.8%'', level_value = high - diff * 0.618, color = ''#ffd740''\<rparr>,
                   \<lparr>level = ''50%'', level_value = high - diff * 0.5, color = ''#aeea00''\<rparr>,
                   \<lparr>level = ''38.2%'', level_value = high - diff * 0.382, color = ''#ffd740''\<rparr>,
                   \<lparr>level = ''23.6%'', level_value = high - diff * 0.236, color = ''#ffb74d''\<rparr>,
                   \<lparr>level = ''0% (High)'', level_value = high, color = ''#448aff''\<rparr>]
             in Returns \<lparr>high = high, low = low, levels = levels\<rparr>)"

text \<open>The seven level values from \<open>0% (High)\<close> down to \<open>100% (Low)\<close> for a high \<open>hi\<close>
  and a low \<open>lo\<close>.\<close>

definition retracement_values :: "real \<Rightarrow> real \<Rightarrow> real list" where
  "retracement_values hi lo =
     [hi, hi - (hi - lo) * 0.236, hi - (hi - lo) * 0.382, hi - (hi - lo) * 0.5,
      hi - (hi - lo) * 0.618, hi - (hi - lo) * 0.786, lo]"

subsection \<open>calculateBollingerBands\<close>

text \<open>
  \<^verbatim>\<open>
  const calculateBollingerBands = (data, period = 20, devs = 2) => {
    if (!Array.isArray(data) || data.length < period) return null;
    const calculateSD = arr => {
      const mean = arr.reduce((s, v) => s + v, 0) / arr.length;
      return Math.sqrt(arr.reduce((s, v) => s + (v - mean) ** 2, 0) / arr.length);
    };
    const bb = [];
    for (let i = period - 1; i < data.length; i++) {
      const slice = data.slice(i - period + 1, i + 1).map(d => d.close);
      const middle = slice.reduce((s, v) => s + v, 0) / period;
      const sd = calculateSD(slice);
      bb.push({
        date: data[i].date,
        upper: middle + devs * sd,
        middle,
        lower: middle - devs * sd
      });
    }
    return bb;
  };
  \<close>
  \<open>slice xs a b\<close> is \<^verbatim>\<open>xs.slice(a, b)\<close> for indices \<open>0 \<le> a \<le> b\<close>. The start index
  \<^verbatim>\<open>i - period + 1\<close> is written \<open>i + 1 - period\<close>, which is the same number for
  \<open>i \<ge> period - 1\<close> and does not truncate on \<open>nat\<close>. The loop carries no state and is
  a map over the indices. With period \<open>0\<close> the loop starts at \<open>i = -1\<close> and reading
  \<^verbatim>\<open>data[-1].date\<close> throws.
\<close>

record bandPoint = dated +
  upper :: real
  middle :: real
  lower :: real

definition slice :: "'a list \<Rightarrow> nat \<Rightarrow> nat \<Rightarrow> 'a list" where
  "slice xs a b = take (b - a) (drop a xs)"

definition calculateSD :: "real list \<Rightarrow> real" where
  "calculateSD arr =
     (let mean = foldl (\<lambda>s v. s + v) 0 arr / real (length arr)
      in sqrt (foldl (\<lambda>s v. s + (v - mean) ^ 2) 0 arr / real (length arr)))"

definition calculateBollingerBands ::
  "('a closePoint_scheme) list \<Rightarrow> nat \<Rightarrow> real \<Rightarrow> bandPoint list outcome"
where
  "calculateBollingerBands data period devs =
     (if length data < period then Null
      else if period = 0 then Outside
      else Returns
        (map (\<lambda>i. let slice = map close (slice data (i + 1 - period) (i + 1));
                      middle = foldl (\<lambda>s v. s + v) 0 slice / real period;
                      sd = calculateSD slice
                  in \<lparr>date = date (data ! i), upper = middle + devs * sd, middle = middle,
                      lower = middle - devs * sd\<rparr>)
             [period - 1..<length data]))"

text \<open>The population standard deviation of the closes in the trailing window of size
  \<open>period\<close> that ends at index \<open>i\<close>: the square root of the mean squared distance from
  the window's mean.\<close>

definition population_sd :: "('a closePoint_scheme) list \<Rightarrow> nat \<Rightarrow> nat \<Rightarrow> real" where
  "population_sd data period i =
     sqrt ((\<Sum>k = i + 1 - period..i. (close (data ! k) - trailing_mean data period i) ^ 2)
           / real period)"

subsection \<open>calculateGoldenDeathCross\<close>

text \<open>
  \<^verbatim>\<open>
  const calculateGoldenDeathCross = (data, sma50List, sma200List) => {
    if (!data || !sma50List || !sma200List) return { signals: [], zones: [] };
    const sma50Map = new Map(sma50List.map(s => [s.date.getTime(), s.value]));
    const sma200Map = new Map(sma200List.map(s => [s.date.getTime(), s.value]));
    const signals = [];
    const zones = [];
    let zoneStart = null;
    let currentZoneType = null;
    for (let i = 1; i < data.length; i++) {
      const ts = data[i].date.getTime();
      const prevTs = data[i - 1].date.getTime();
      const sma50 = sma50Map.get(ts);
      const sma200 = sma200Map.get(ts);
      const prevSma50 = sma50Map.get(prevTs);
      const prevSma200 = sma200Map.get(prevTs);
      if (sma50 == null || sma200 == null || prevSma50 == null || prevSma200 == null) continue;
      const isGolden = sma50 > sma200;
      const isDeath = sma50 < sma200;
      let signalType = null;
      if (prevSma50 <= prevSma200 && sma50 > sma200) {
        signalType = 'golden';
      } else if (prevSma50 >= prevSma200 && sma50 < sma200) {
        signalType = 'death';
      }
      if (signalType) {
        signals.push({ date: data[i].date, type: signalType, price: data[i].close });
        if (zoneStart) {
          zones.push({ start: zoneStart, end: data[i].date, type: currentZoneType });
        }
        zoneStart = data[i].date;
        currentZoneType = signalType;
      } else if (!zoneStart) {
        zoneStart = data[i].date;
        currentZoneType = isGolden ? 'golden' : 'death';
      }
    }
    if (zoneStart && data.length > 0) {
      zones.push({ start: zoneStart, end: data[data.length - 1].date, type: currentZoneType });
    }
    return { signals, zones };
  };
  \<close>
  The result is a \<open>crossResult\<close>; the mutable variables of the function are the record
  \<open>crossState\<close>, which extends it; \<open>cross_step\<close> is one
  iteration of the loop at index \<open>i\<close> and \<open>cross_loop\<close> the loop. A \<^verbatim>\<open>Date\<close> object is
  always truthy, so \<^verbatim>\<open>if (zoneStart)\<close> asks whether \<open>zoneStart\<close> has been set. The
  argument \<^verbatim>\<open>data\<close> is an array; each SMA list is an array or \<^verbatim>\<open>null\<close> (\<open>None\<close>), as
  \<^verbatim>\<open>calculateSMA\<close> returns it.
\<close>

datatype crossType = golden | death

record signal = dated +
  type :: crossType
  price :: real

record zone =
  start :: int
  "end" :: int
  type :: "crossType option"

record crossResult =
  signals :: "signal list"
  zones :: "zone list"

record crossState = crossResult +
  zoneStart :: "int option"
  currentZoneType :: "crossType option"

definition cross_step ::
  "('a closePoint_scheme) list \<Rightarrow> (int \<rightharpoonup> real) \<Rightarrow> (int \<rightharpoonup> real) \<Rightarrow> nat \<Rightarrow> crossState
     \<Rightarrow> crossState"
where
  "cross_step data sma50Map sma200Map i st =
     (let ts = date (data ! i);
          prevTs = date (data ! (i - 1))
      in case (sma50Map ts, sma200Map ts, sma50Map prevTs, sma200Map prevTs) of
           (Some sma50, Some sma200, Some prevSma50, Some prevSma200) \<Rightarrow>
             let isGolden = sma50 > sma200;
                 signalType =
                   (if prevSma50 \<le> prevSma200 \<and> sma50 > sma200 then Some golden
                    else if prevSma50 \<ge> prevSma200 \<and> sma50 < sma200 then Some death
                    else None)
             in (case signalType of
                   Some t \<Rightarrow>
                     st\<lparr>signals := signals st @
                           [\<lparr>date = date (data ! i), signal.type = t, price = close (data ! i)\<rparr>],
                        zones := (case zoneStart st of
                                    Some zs \<Rightarrow> zones st @
                                      [\<lparr>start = zs, end = date (data ! i),
                                        type = currentZoneType st\<rparr>]
                                  | None \<Rightarrow> zones st),
                        zoneStart := Some (date (data ! i)),
                        currentZoneType := Some t\<rparr>
                 | None \<Rightarrow>
                     (case zoneStart st of
                        None \<Rightarrow>
                          st\<lparr>zoneStart := Some (date (data ! i)),
                             currentZoneType := Some (if isGolden then golden else death)\<rparr>
                      | Some zs \<Rightarrow> st))
         | _ \<Rightarrow> st)"

function cross_loop ::
  "('a closePoint_scheme) list \<Rightarrow> (int \<rightharpoonup> real) \<Rightarrow> (int \<rightharpoonup> real) \<Rightarrow> nat \<Rightarrow> crossState
     \<Rightarrow> crossState"
where
  "cross_loop data sma50Map sma200Map i st =
     (if i < length data
      then cross_loop data sma50Map sma200Map (i + 1) (cross_step data sma50Map sma200Map i st)
      else st)"
  by pat_completeness auto
termination
  by (relation "measure (\<lambda>(data, sma50Map, sma200Map, i, st). length data - i)") auto

definition calculateGoldenDeathCross ::
  "('a closePoint_scheme) list \<Rightarrow> indicatorPoint list option \<Rightarrow> indicatorPoint list option
     \<Rightarrow> crossResult"
where
  "calculateGoldenDeathCross data sma50List sma200List =
     (case (sma50List, sma200List) of
        (Some l50, Some l200) \<Rightarrow>
          let sma50Map = new_Map (entries l50);
              sma200Map = new_Map (entries l200);
              st = cross_loop data sma50Map sma200Map 1
                     \<lparr>signals = [], zones = [], zoneStart = None, currentZoneType = None\<rparr>;
              zones2 = (case zoneStart st of
                          Some zs \<Rightarrow>
                            if length data > 0
                            then zones st @ [\<lparr>start = zs, end = date (data ! (length data - 1)),
                                              type = currentZoneType st\<rparr>]
                            else zones st
                        | None \<Rightarrow> zones st)
          in \<lparr>signals = signals st, zones = zones2\<rparr>
      | _ \<Rightarrow> \<lparr>signals = [], zones = []\<rparr>)"

text \<open>Adjacent zones are contiguous when each zone ends on the date on which the next
  one starts.\<close>

fun contiguous :: "zone list \<Rightarrow> bool" where
  "contiguous [] = True"
| "contiguous [z] = True"
| "contiguous (z # z2 # zs) = (end z = start z2 \<and> contiguous (z2 # zs))"

text \<open>The loop invariant of \<open>cross_loop\<close> before iteration \<open>i\<close>: the zones pushed so far
  do not overlap, each starts before it ends, they are contiguous, the open zone starts
  where the last pushed zone ends, and it starts on the date of an index already visited,
  not before the end of any pushed zone.\<close>

definition zone_inv :: "('a closePoint_scheme) list \<Rightarrow> nat \<Rightarrow> crossState \<Rightarrow> bool" where
  "zone_inv data i st \<longleftrightarrow>
     sorted_wrt (\<lambda>a c. end a \<le> start c) (zones st) \<and>
     (\<forall>z\<in>set (zones st). start z < end z) \<and>
     contiguous (zones st) \<and>
     (zones st \<noteq> [] \<longrightarrow> zoneStart st = Some (end (last (zones st)))) \<and>
     (\<forall>s. zoneStart st = Some s \<longrightarrow>
        (\<exists>j<i. s = date (data ! j)) \<and> (\<forall>z\<in>set (zones st). end z \<le> s))"

subsection \<open>The Date object\<close>

text \<open>
  The methods of \<^verbatim>\<open>Date\<close> that \<^verbatim>\<open>getPeriodKey\<close> calls, after the abstract operations of
  the ECMAScript language specification (section "Date Objects"): \<open>Day\<close>, \<open>DayFromYear\<close>,
  \<open>YearFromTime\<close>, \<open>WeekDay\<close>, \<open>MonthFromTime\<close>, \<open>MakeDay\<close>, \<open>LocalTime\<close>, \<open>UTC\<close>. The time
  zone of the host is the function \<open>LocalTZA\<close> of that specification, a parameter \<open>tza\<close> of
  every method: \<open>tza t True\<close> is the offset in milliseconds in force at the time value
  \<open>t\<close>, and \<open>tza t False\<close> is the offset by which the local time \<open>t\<close> is turned into a time
  value. The offset may change with the instant, as it does on a host with daylight
  saving time. \<open>YearFromDay\<close> computes the year from an estimate that is off by at most
  one; \<open>YearFromDay_correct\<close> below proves that it is the year the specification defines.
\<close>

type_synonym localTZA = "int \<Rightarrow> bool \<Rightarrow> int"

definition msPerDay :: int where
  "msPerDay = 86400000"

definition Day :: "int \<Rightarrow> int" where
  "Day t = t div msPerDay"

definition DayFromYear :: "int \<Rightarrow> int" where
  "DayFromYear y =
     365 * (y - 1970) + (y - 1969) div 4 - (y - 1901) div 100 + (y - 1601) div 400"

definition YearFromDay :: "int \<Rightarrow> int" where
  "YearFromDay dy =
     (let y0 = 1970 + (400 * dy) div 146097
      in if dy < DayFromYear y0 then y0 - 1
         else if DayFromYear (y0 + 1) \<le> dy then y0 + 1
         else y0)"

definition LocalTime :: "localTZA \<Rightarrow> int \<Rightarrow> int" where
  "LocalTime tza t = t + tza t True"

definition UTC :: "localTZA \<Rightarrow> int \<Rightarrow> int" where
  "UTC tza t = t - tza t False"

definition getFullYear :: "localTZA \<Rightarrow> int \<Rightarrow> int" where
  "getFullYear tza t = YearFromDay (Day (LocalTime tza t))"

definition getDay :: "localTZA \<Rightarrow> int \<Rightarrow> int" where
  "getDay tza t = (Day (LocalTime tza t) + 4) mod 7"

definition getMonth :: "localTZA \<Rightarrow> int \<Rightarrow> int" where
  "getMonth tza t =
     (let dy = Day (LocalTime tza t);
          y = YearFromDay dy;
          leap = (if DayFromYear (y + 1) - DayFromYear y = 366 then 1 else 0);
          n = dy - DayFromYear y
      in if n < 31 then 0
         else if n < 59 + leap then 1
         else if n < 90 + leap then 2
         else if n < 120 + leap then 3
         else if n < 151 + leap then 4
         else if n < 181 + leap then 5
         else if n < 212 + leap then 6
         else if n < 243 + leap then 7
         else if n < 273 + leap then 8
         else if n < 304 + leap then 9
         else if n < 334 + leap then 10
         else 11)"

text \<open>\<^verbatim>\<open>new Date(year, 0, 1)\<close>: the time value of local midnight of 1 January, under the
  offset that belongs to that local time; a year from \<open>0\<close> to \<open>99\<close> is taken as
  \<open>1900 + year\<close>.\<close>

definition new_Date_jan1 :: "localTZA \<Rightarrow> int \<Rightarrow> int" where
  "new_Date_jan1 tza year =
     (let yr = (if 0 \<le> year \<and> year \<le> 99 then 1900 + year else year)
      in UTC tza (DayFromYear yr * msPerDay))"

text \<open>The decimal string of an integer, as a template literal prints it.\<close>

fun digits :: "nat \<Rightarrow> string" where
  "digits n = (if n < 10 then [''0123456789'' ! n]
               else digits (n div 10) @ [''0123456789'' ! (n mod 10)])"

definition show_int :: "int \<Rightarrow> string" where
  "show_int i = (if i < 0 then CHR ''-'' # digits (nat (- i)) else digits (nat i))"

subsection \<open>getPeriodKey of calculatePeakPoints\<close>

text \<open>
  \<^verbatim>\<open>
  const getPeriodKey = (date) => {
    const d = new Date(date);
    if (periodType === 'week') {
      const onejan = new Date(d.getFullYear(), 0, 1);
      const millis = d - onejan;
      return `${d.getFullYear()}-W${Math.ceil((((millis / 86400000) + onejan.getDay() + 1) / 7))}`;
    } else if (periodType === 'month') {
      return `${d.getFullYear()}-${d.getMonth() + 1}`;
    } else if (periodType === 'year') {
      return `${d.getFullYear()}`;
    }
    return '';
  };
  \<close>
  \<^verbatim>\<open>calculatePeakPoints\<close> puts two items into the same group exactly when their keys are
  the same string. \<^verbatim>\<open>periodType\<close> is a string of the enclosing function; every value other
  than the three tested is \<open>other\<close>.
\<close>

datatype periodType = week | month | year | other

definition getPeriodKey :: "localTZA \<Rightarrow> periodType \<Rightarrow> int \<Rightarrow> string" where
  "getPeriodKey tza pt d =
     (case pt of
        week \<Rightarrow>
          let onejan = new_Date_jan1 tza (getFullYear tza d);
              millis = d - onejan
          in show_int (getFullYear tza d) @ ''-W'' @
             show_int \<lceil>((real_of_int millis / 86400000) + real_of_int (getDay tza onejan) + 1) / 7\<rceil>
      | month \<Rightarrow> show_int (getFullYear tza d) @ ''-'' @ show_int (getMonth tza d + 1)
      | year \<Rightarrow> show_int (getFullYear tza d)
      | other \<Rightarrow> '''')"








definition london_host :: localTZA where
  "london_host t isUTC =
     (if isUTC then (if 1711846800000 \<le> t \<and> t < 1729990800000 then 3600000 else 0)
      else (if 1711850400000 \<le> t \<and> t < 1729994400000 then 3600000 else 0))"

section \<open>Verified properties\<close>

declare sma_loop.simps [simp del] ema_loop.simps [simp del]
  seed_loop.simps [simp del] rsi_loop.simps [simp del]
  low_left.simps [simp del] low_right.simps [simp del]
  high_left.simps [simp del] high_right.simps [simp del]
  cross_loop.simps [simp del] digits.simps [simp del]

subsection \<open>Simple moving average\<close>

lemma window_sum_step:
  "0 < period \<Longrightarrow>
   window_sum data period (Suc i) =
     (if period \<le> i then window_sum data period i + close (data ! i) - close (data ! (i - period))
      else window_sum data period i + close (data ! i))"
proof (cases "period \<le> i")
  case False
  then have "Suc i - period = 0" "i - period = 0" by simp_all
  then show ?thesis using False by (simp add: window_sum_def)
next
  case True
  let ?f = "\<lambda>k. close (data ! k)"
  from True have e: "Suc i - period = Suc (i - period)" by simp
  have "i - period < Suc i" by simp
  then have a: "sum ?f {i - period..<Suc i} = ?f (i - period) + sum ?f {Suc (i - period)..<Suc i}"
    by (rule sum.atLeast_Suc_lessThan)
  have "i - period \<le> i" by simp
  then have b: "sum ?f {i - period..<Suc i} = sum ?f {i - period..<i} + ?f i"
    by (rule sum.atLeastLessThan_Suc)
  have "window_sum data period (Suc i) = sum ?f {Suc (i - period)..<Suc i}"
    unfolding window_sum_def e ..
  also have "\<dots> = sum ?f {i - period..<i} + ?f i - ?f (i - period)"
    using a b by linarith
  finally show ?thesis using True unfolding window_sum_def by (simp only: if_True)
qed

lemma trailing_mean_window_sum:
  "trailing_mean data period i = window_sum data period (Suc i) / real period"
  by (simp add: trailing_mean_def window_sum_def atLeastLessThanSuc_atLeastAtMost)

lemma sma_loop_inv:
  assumes "0 < period"
  shows "i \<le> length data \<Longrightarrow>
    sma_loop data period i (window_sum data period i) out =
      out @ map (\<lambda>j. \<lparr>date = date (data ! j), value = trailing_mean data period j\<rparr>)
                [max i (period - 1)..<length data]"
proof (induction "length data - i" arbitrary: i out)
  case 0
  then have "\<not> i < length data" by simp
  then show ?case by (subst sma_loop.simps) simp
next
  case (Suc d)
  then have lt: "i < length data" and d: "d = length data - Suc i" by simp_all
  let ?s2 = "window_sum data period (Suc i)"
  let ?pt = "\<lambda>j. \<lparr>date = date (data ! j), value = trailing_mean data period j\<rparr>"
  have s2: "(if period \<le> i
             then window_sum data period i + close (data ! i) - close (data ! (i - period))
             else window_sum data period i + close (data ! i)) = ?s2"
    using window_sum_step [OF assms, of data i] by simp
  have unfold: "sma_loop data period i (window_sum data period i) out =
      sma_loop data period (Suc i) ?s2
        (if period \<le> i + 1 then out @ [\<lparr>date = date (data ! i), value = ?s2 / real period\<rparr>]
         else out)"
    using lt s2 by (subst sma_loop.simps) (simp add: Let_def)
  have ih: "\<And>out'. sma_loop data period (Suc i) ?s2 out' =
      out' @ map ?pt [max (Suc i) (period - 1)..<length data]"
    using Suc.hyps(1) [of "Suc i"] d lt by simp
  show ?case
  proof (cases "period \<le> i + 1")
    case True
    then have m: "max i (period - 1) = i" "max (Suc i) (period - 1) = Suc i" by simp_all
    have "[i..<length data] = i # [Suc i..<length data]"
      using lt by (simp add: upt_conv_Cons)
    then show ?thesis
      using True unfold ih m by (simp add: trailing_mean_window_sum)
  next
    case False
    then have m: "max i (period - 1) = period - 1" "max (Suc i) (period - 1) = period - 1"
      by simp_all
    show ?thesis using False unfold ih m by simp
  qed
qed

lemma sma_loop_from_start:
  assumes "0 < period"
  shows "sma_loop data period 0 0 [] =
      map (\<lambda>i. \<lparr>date = date (data ! i), value = trailing_mean data period i\<rparr>)
          [period - 1..<length data]"
proof -
  have "window_sum data period 0 = 0" by (simp add: window_sum_def)
  then show ?thesis using sma_loop_inv [OF assms, of 0 data "[]"] by simp
qed

text \<open>
  C6. For a series of length \<open>n \<ge> period\<close> the SMA output has one point for each input
  index \<open>period - 1, \<dots>, n - 1\<close>, in this order, carrying the date of that index and the
  arithmetic mean of the closes in the trailing window of size \<open>period\<close>; for
  \<open>n < period\<close> the function returns \<^verbatim>\<open>null\<close>, no output at all.
\<close>

theorem calculateSMA_window_mean:
  assumes "0 < period"
  shows "(period \<le> length data \<longrightarrow>
            calculateSMA data period =
              Returns (map (\<lambda>i. \<lparr>date = date (data ! i), value = trailing_mean data period i\<rparr>)
                       [period - 1..<length data]))
       \<and> (length data < period \<longrightarrow> calculateSMA data period = Null)"
  using assms by (simp add: calculateSMA_def sma_loop_from_start)

text \<open>The example of the specification: closes \<open>1, 2, 3, 4, 5\<close> with period \<open>3\<close>.\<close>

theorem calculateSMA_window_mean_witness:
  "(0::nat) < 3 \<and>
   3 \<le> length [\<lparr>date = 0, close = 1\<rparr>, \<lparr>date = 1, close = 2\<rparr>, \<lparr>date = 2, close = 3\<rparr>,
      \<lparr>date = 3, close = 4\<rparr>, \<lparr>date = 4, close = 5\<rparr>] \<and>
   calculateSMA [\<lparr>date = 0, close = 1\<rparr>, \<lparr>date = 1, close = 2\<rparr>, \<lparr>date = 2, close = 3\<rparr>,
      \<lparr>date = 3, close = 4\<rparr>, \<lparr>date = 4, close = 5\<rparr>] 3 =
     Returns [\<lparr>date = 2, value = 2\<rparr>, \<lparr>date = 3, value = 3\<rparr>, \<lparr>date = 4, value = 4\<rparr>]"
  using calculateSMA_window_mean [of 3 "[\<lparr>date = 0, close = 1\<rparr>, \<lparr>date = 1, close = 2\<rparr>,
      \<lparr>date = 2, close = 3\<rparr>, \<lparr>date = 3, close = 4\<rparr>, \<lparr>date = 4, close = 5\<rparr>]"]
  by (simp add: trailing_mean_def upt_rec numeral_eq_Suc)

subsection \<open>Exponential moving average and MACD\<close>

lemma ema_loop_dates:
  "map date (ema_loop data period k i ema out) = map date out @ map date (drop i data)"
proof (induction "length data - i" arbitrary: i ema out)
  case 0
  then have "\<not> i < length data" by simp
  then show ?case by (subst ema_loop.simps) simp
next
  case (Suc d)
  then have lt: "i < length data" and d: "d = length data - Suc i" by simp_all
  have dr: "drop i data = data ! i # drop (Suc i) data"
    using lt by (simp add: Cons_nth_drop_Suc)
  show ?case
    using lt Suc.hyps(1) [OF d] dr by (subst ema_loop.simps) (simp add: Let_def)
qed

lemma calculateEMA_dates:
  assumes "0 < period" "period \<le> length data"
  shows "\<exists>out. calculateEMA data period = Returns out \<and>
               map date out = drop (period - 1) (map date data)"
  using assms by (simp add: calculateEMA_def Let_def ema_loop_dates drop_map)

lemma calculateEMA_Returns:
  assumes "calculateEMA data period = Returns out"
  shows "0 < period \<and> period \<le> length data \<and> map date out = drop (period - 1) (map date data)"
  using assms by (auto simp: calculateEMA_def Let_def ema_loop_dates drop_map split: if_splits)

lemma macd_points_dates:
  "map date (macd_points data slow a b) = drop (slow - 1) (map date data)"
proof -
  have "map date (macd_points data slow a b) = map (\<lambda>i. map date data ! i) [slow - 1..<length (map date data)]"
    by (simp add: macd_points_def Let_def)
  also have "\<dots> = drop (slow - 1) (map date data)"
    by (metis drop_map length_map map_nth map_upt_eqI[symmetric] drop_upt add_0 upt_0)
  finally show ?thesis .
qed

lemma histogram_points_dates: "map date (histogram_points ml m) = map date ml"
  by (simp add: histogram_points_def Let_def)

lemma foldl_upd_map_of:
  "foldl (\<lambda>m (k, v). m(k \<mapsto> v)) m0 kvs = m0 ++ map_of (rev kvs)"
  by (induction kvs arbitrary: m0) (auto simp: map_add_upd_left fun_eq_iff map_add_def split: option.splits)

lemma new_Map_map_of: "new_Map kvs = map_of (rev kvs)"
  by (simp add: new_Map_def foldl_upd_map_of)

lemma new_Map_entries:
  assumes "distinct (map date xs)" "x \<in> set xs"
  shows "new_Map (entries xs) (date x) = Some (value x)"
proof -
  have d: "distinct (map fst (rev (entries xs)))"
    using assms(1) by (simp add: entries_def rev_map [symmetric] comp_def del: rev_map)
  have "(date x, value x) \<in> set (rev (entries xs))"
    using assms(2) by (auto simp: entries_def)
  then show ?thesis using d by (simp add: new_Map_map_of)
qed

lemma calculateMACD_Returns:
  assumes "calculateMACD data fast slow sig = Returns r"
  obtains emaFast emaSlow where
    "calculateEMA data fast = Returns emaFast" "calculateEMA data slow = Returns emaSlow"
    "macdLine r = macd_points data slow (new_Map (entries emaFast)) (new_Map (entries emaSlow))"
    "calculateEMA (map (\<lambda>m. \<lparr>date = date m, close = value m\<rparr>) (macdLine r)) sig = Returns (signalLine r)"
    "histogram r = histogram_points (macdLine r) (new_Map (entries (signalLine r)))"
  using assms
  by (auto simp: calculateMACD_def Let_def split: if_splits outcome.splits)

text \<open>
  C2, as the code has it. When \<^verbatim>\<open>calculateMACD\<close> is given positive periods with
  \<open>fast \<le> n\<close> and \<open>slow + sig \<le> n\<close>, it returns a result in which \<^verbatim>\<open>macdLine\<close> carries
  the dates of the input from index \<open>slow - 1\<close> on, \<^verbatim>\<open>histogram\<close> carries the same dates
  as \<^verbatim>\<open>macdLine\<close> in the same order, and \<^verbatim>\<open>signalLine\<close> carries the dates of
  \<^verbatim>\<open>macdLine\<close> without the first \<open>sig - 1\<close>: the signal line starts later than the
  other two.
\<close>

theorem calculateMACD_dates:
  assumes "0 < fast" "fast \<le> length data" "0 < slow" "0 < sig" "slow + sig \<le> length data"
  shows "\<exists>r. calculateMACD data fast slow sig = Returns r
           \<and> map date (macdLine r) = drop (slow - 1) (map date data)
           \<and> map date (histogram r) = map date (macdLine r)
           \<and> map date (signalLine r) = drop (sig - 1) (map date (macdLine r))"
proof -
  obtain emaFast where f: "calculateEMA data fast = Returns emaFast"
    using calculateEMA_dates [OF assms(1,2)] by blast
  have "slow \<le> length data" using assms(5) by simp
  then obtain emaSlow where s: "calculateEMA data slow = Returns emaSlow"
    using calculateEMA_dates [OF assms(3)] by blast
  define ml where "ml = macd_points data slow (new_Map (entries emaFast)) (new_Map (entries emaSlow))"
  define cl where "cl = map (\<lambda>m. \<lparr>date = date m, close = value m\<rparr>) ml"
  have mld: "map date ml = drop (slow - 1) (map date data)"
    by (simp add: ml_def macd_points_dates)
  have "length ml = length data - (slow - 1)"
    using arg_cong [OF mld, of length] by simp
  then have "sig \<le> length cl" using assms(3,5) by (simp add: cl_def)
  then obtain sl where sl: "calculateEMA cl sig = Returns sl"
      and sld: "map date sl = drop (sig - 1) (map date cl)"
    using calculateEMA_dates [OF assms(4)] by blast
  have cld: "map date cl = map date ml" by (simp add: cl_def comp_def)
  have "calculateMACD data fast slow sig =
      Returns \<lparr>macdLine = ml, signalLine = sl, histogram = histogram_points ml (new_Map (entries sl))\<rparr>"
    using assms(5) f s sl unfolding cl_def ml_def by (simp add: calculateMACD_def Let_def)
  then show ?thesis using mld sld cld by (simp add: histogram_points_dates)
qed

text \<open>A run of the source on four points with \<open>fast = 1\<close>, \<open>slow = 2\<close>, \<open>sig = 2\<close>.\<close>

lemma calculateMACD_example:
  "calculateMACD [\<lparr>date = 1, close = 1\<rparr>, \<lparr>date = 2, close = 2\<rparr>, \<lparr>date = 3, close = 4\<rparr>,
                  \<lparr>date = 4, close = 8\<rparr>] 1 2 2 =
     Returns \<lparr>macdLine = [\<lparr>date = 2, value = 1 / 2\<rparr>, \<lparr>date = 3, value = 5 / 6\<rparr>,
                       \<lparr>date = 4, value = 29 / 18\<rparr>],
          signalLine = [\<lparr>date = 3, value = 2 / 3\<rparr>, \<lparr>date = 4, value = 35 / 27\<rparr>],
          histogram = [\<lparr>date = 2, value = 1 / 2\<rparr>, \<lparr>date = 3, value = 1 / 6\<rparr>,
                       \<lparr>date = 4, value = 17 / 54\<rparr>]\<rparr>"
  by (simp add: calculateMACD_def calculateEMA_def ema_loop.simps new_Map_def entries_def
      get_or_0_def macd_points_def histogram_points_def Let_def upt_rec)

theorem calculateMACD_dates_witness:
  "(0::nat) < 1 \<and> (0::nat) < 2 \<and>
   2 + 2 \<le> length [\<lparr>date = 1, close = 1\<rparr>, \<lparr>date = 2, close = 2\<rparr>, \<lparr>date = 3, close = 4\<rparr>,
                     \<lparr>date = 4, close = 8 :: real\<rparr>] \<and>
   (\<exists>r. calculateMACD [\<lparr>date = 1, close = 1\<rparr>, \<lparr>date = 2, close = 2\<rparr>,
                          \<lparr>date = 3, close = 4\<rparr>, \<lparr>date = 4, close = 8\<rparr>] 1 2 2 = Returns r
        \<and> map date (macdLine r) = [2, 3, 4]
        \<and> map date (histogram r) = [2, 3, 4]
        \<and> map date (signalLine r) = [3, 4])"
  using calculateMACD_dates [of 1 "[\<lparr>date = 1, close = 1\<rparr>, \<lparr>date = 2, close = 2\<rparr>,
                          \<lparr>date = 3, close = 4\<rparr>, \<lparr>date = 4, close = 8\<rparr>]" 2 2]
  by force

text \<open>
  The three series are not date-aligned: in the run above the date \<open>2\<close> is in \<^verbatim>\<open>macdLine\<close> (and in
  \<^verbatim>\<open>histogram\<close>) and not in \<^verbatim>\<open>signalLine\<close>, so the three series do not contain the
  same set of dates.
\<close>

theorem calculateMACD_dates_counterexample:
  "calculateMACD [\<lparr>date = 1, close = 1\<rparr>, \<lparr>date = 2, close = 2\<rparr>, \<lparr>date = 3, close = 4\<rparr>,
                  \<lparr>date = 4, close = 8\<rparr>] 1 2 2 =
     Returns \<lparr>macdLine = [\<lparr>date = 2, value = 1 / 2\<rparr>, \<lparr>date = 3, value = 5 / 6\<rparr>,
                       \<lparr>date = 4, value = 29 / 18\<rparr>],
          signalLine = [\<lparr>date = 3, value = 2 / 3\<rparr>, \<lparr>date = 4, value = 35 / 27\<rparr>],
          histogram = [\<lparr>date = 2, value = 1 / 2\<rparr>, \<lparr>date = 3, value = 1 / 6\<rparr>,
                       \<lparr>date = 4, value = 17 / 54\<rparr>]\<rparr>
   \<and> 2 \<in> dateSet [\<lparr>date = 2, value = 1 / 2\<rparr>, \<lparr>date = 3, value = 5 / 6\<rparr>,
                     \<lparr>date = 4, value = 29 / 18 :: real\<rparr>]
   \<and> 2 \<notin> dateSet [\<lparr>date = 3, value = 2 / 3\<rparr>, \<lparr>date = 4, value = 35 / 27 :: real\<rparr>]"
  using calculateMACD_example by (simp add: dateSet_def)

text \<open>
  C7. In a result of \<^verbatim>\<open>calculateMACD\<close> on a series with pairwise different dates, for
  every date that occurs in all three series the histogram value at that date is the
  MACD value minus the signal value at that date.
\<close>

theorem calculateMACD_histogram:
  assumes "distinct (map date data)"
      and "calculateMACD data fast slow sig = Returns r"
      and "m \<in> set (macdLine r)" "s \<in> set (signalLine r)" "h \<in> set (histogram r)"
      and "date m = date h" "date s = date h"
  shows "value h = value m - value s"
proof -
  from assms(2) obtain emaFast emaSlow where
    ml: "macdLine r = macd_points data slow (new_Map (entries emaFast)) (new_Map (entries emaSlow))"
    and sl: "calculateEMA (map (\<lambda>m. \<lparr>date = date m, close = value m\<rparr>) (macdLine r)) sig = Returns (signalLine r)"
    and hi: "histogram r = histogram_points (macdLine r) (new_Map (entries (signalLine r)))"
    by (rule calculateMACD_Returns)
  have dml: "distinct (map date (macdLine r))"
    using assms(1) by (simp add: ml macd_points_dates distinct_drop)
  have "map date (signalLine r) = drop (sig - 1) (map date (macdLine r))"
    using calculateEMA_Returns [OF sl] by (simp add: comp_def)
  then have dsl: "distinct (map date (signalLine r))"
    using dml by (simp add: distinct_drop)
  from assms(5) obtain ml0 where ml0: "ml0 \<in> set (macdLine r)" "date h = date ml0"
      "value h = value ml0 - get_or_0 (new_Map (entries (signalLine r))) (date ml0)"
    by (auto simp: hi histogram_points_def Let_def)
  have "date ml0 = date m" using ml0(2) assms(6) by simp
  then have eq: "ml0 = m"
    using dml ml0(1) assms(3) by (metis distinct_map inj_onD)
  have ds: "date ml0 = date s" using ml0(2) assms(7) by simp
  have "get_or_0 (new_Map (entries (signalLine r))) (date s) = value s"
    using new_Map_entries [OF dsl assms(4)] by (simp add: get_or_0_def)
  then have "value h = value ml0 - value s" unfolding ml0(3) ds by (rule arg_cong)
  then show ?thesis unfolding eq .
qed

theorem calculateMACD_histogram_witness:
  "distinct (map date [\<lparr>date = 1, close = 1\<rparr>, \<lparr>date = 2, close = 2\<rparr>, \<lparr>date = 3, close = 4\<rparr>,
                       \<lparr>date = 4, close = 8 :: real\<rparr>]) \<and>
   calculateMACD [\<lparr>date = 1, close = 1\<rparr>, \<lparr>date = 2, close = 2\<rparr>, \<lparr>date = 3, close = 4\<rparr>,
                  \<lparr>date = 4, close = 8\<rparr>] 1 2 2 =
     Returns \<lparr>macdLine = [\<lparr>date = 2, value = 1 / 2\<rparr>, \<lparr>date = 3, value = 5 / 6\<rparr>,
                       \<lparr>date = 4, value = 29 / 18\<rparr>],
          signalLine = [\<lparr>date = 3, value = 2 / 3\<rparr>, \<lparr>date = 4, value = 35 / 27\<rparr>],
          histogram = [\<lparr>date = 2, value = 1 / 2\<rparr>, \<lparr>date = 3, value = 1 / 6\<rparr>,
                       \<lparr>date = 4, value = 17 / 54\<rparr>]\<rparr> \<and>
   value \<lparr>date = 3, value = 1 / 6\<rparr> =
     value \<lparr>date = 3, value = 5 / 6\<rparr> - value \<lparr>date = 3, value = 2 / 3 :: real\<rparr>"
proof -
  have d: "distinct (map date [\<lparr>date = 1, close = 1\<rparr>, \<lparr>date = 2, close = 2\<rparr>,
                       \<lparr>date = 3, close = 4\<rparr>, \<lparr>date = 4, close = 8 :: real\<rparr>])"
    by simp
  show ?thesis
    using d calculateMACD_example
      calculateMACD_histogram [OF d calculateMACD_example,
        of "\<lparr>date = 3, value = 5 / 6\<rparr>" "\<lparr>date = 3, value = 2 / 3\<rparr>" "\<lparr>date = 3, value = 1 / 6\<rparr>"]
    by simp
qed

subsection \<open>Relative strength index\<close>

lemma seed_loop_nonneg:
  "seed_loop changes period i (g, l) = (g', l') \<Longrightarrow> 0 \<le> g \<Longrightarrow> 0 \<le> l \<Longrightarrow> 0 \<le> g' \<and> 0 \<le> l'"
proof (induction changes period i "(g, l)" arbitrary: g l rule: seed_loop.induct)
  case (1 changes period i gains losses)
  show ?case
  proof (cases "i < period")
    case False
    then show ?thesis using "1.prems" by (simp add: seed_loop.simps)
  next
    case True
    show ?thesis
    proof (cases "changes ! i > 0")
      case pos: True
      then show ?thesis
        using True "1.prems" "1.hyps"(1) [OF True pos]
        by (simp add: seed_loop.simps [of changes period i])
    next
      case neg: False
      then show ?thesis
        using True "1.prems" "1.hyps"(2) [OF True neg]
        by (simp add: seed_loop.simps [of changes period i])
    qed
  qed
qed

lemma rsi_value_range:
  fixes rs :: real
  assumes "0 \<le> rs"
  shows "0 \<le> 100 - 100 / (1 + rs) \<and> 100 - 100 / (1 + rs) \<le> 100"
proof -
  have "100 / (1 + rs) \<le> 100 / 1" using assms by (intro divide_left_mono) simp_all
  moreover have "0 \<le> 100 / (1 + rs)" using assms by simp
  ultimately show ?thesis by simp
qed

lemma rsi_loop_range:
  assumes "0 < period"
  shows "0 \<le> avgGain \<Longrightarrow> 0 \<le> avgLoss \<Longrightarrow> list_all in_range out \<Longrightarrow>
         list_all in_range (rsi_loop data changes period i avgGain avgLoss out)"
proof (induction "length changes - i" arbitrary: i avgGain avgLoss out)
  case 0
  then have "\<not> i < length changes" by simp
  then show ?case using "0.prems" by (subst rsi_loop.simps) simp
next
  case (Suc d)
  then have lt: "i < length changes" and d: "d = length changes - Suc i" by simp_all
  define change where "change = changes ! i"
  define ag where "ag = (if change > 0 then (avgGain * (real period - 1) + change) / real period
                        else (avgGain * (real period - 1)) / real period)"
  define al where "al = (if change > 0 then (avgLoss * (real period - 1)) / real period
                        else (avgLoss * (real period - 1) - change) / real period)"
  define rs where "rs = (if al = 0 then 100 else ag / al)"
  have p1: "0 \<le> real period - 1" using assms by simp
  have mg: "0 \<le> avgGain * (real period - 1)" using Suc.prems(1) p1 by simp
  have ml: "0 \<le> avgLoss * (real period - 1)" using Suc.prems(2) p1 by simp
  have ag0: "0 \<le> ag" using mg by (simp add: ag_def)
  have al0: "0 \<le> al" using ml by (simp add: al_def)
  have "0 \<le> rs" using ag0 al0 by (simp add: rs_def)
  then have "in_range \<lparr>date = date (data ! (i + 1)), value = 100 - 100 / (1 + rs)\<rparr>"
    using rsi_value_range [of rs] by (simp add: in_range_def)
  then have out: "list_all in_range (out @ [\<lparr>date = date (data ! (i + 1)), value = 100 - 100 / (1 + rs)\<rparr>])"
    using Suc.prems(3) by simp
  have "rsi_loop data changes period i avgGain avgLoss out =
        rsi_loop data changes period (Suc i) ag al
          (out @ [\<lparr>date = date (data ! (i + 1)), value = 100 - 100 / (1 + rs)\<rparr>])"
    using lt by (subst rsi_loop.simps) (simp add: Let_def ag_def al_def rs_def change_def)
  then show ?case using Suc.hyps(1) [OF d ag0 al0 out] by simp
qed

text \<open>Every value that \<^verbatim>\<open>calculateRSI\<close> emits lies in the interval from \<open>0\<close> to \<open>100\<close>:
  both running averages stay non-negative, so \<open>rs\<close> is non-negative.\<close>

lemma calculateRSI_range:
  assumes "calculateRSI data period = Returns out"
  shows "list_all in_range out"
proof -
  from assms have p: "0 < period" by (auto simp: calculateRSI_def split: if_splits)
  obtain g l where gl: "seed_loop (price_changes data) period 0 (0, 0) = (g, l)"
    by (cases "seed_loop (price_changes data) period 0 (0, 0)")
  then have "0 \<le> g \<and> 0 \<le> l" using seed_loop_nonneg [OF gl] by simp
  then have "0 \<le> g / real period" "0 \<le> l / real period" by simp_all
  then have "list_all in_range (rsi_loop data (price_changes data) period period (g / real period) (l / real period) [])"
    by (intro rsi_loop_range [OF p]) simp_all
  then show ?thesis using assms gl by (auto simp: calculateRSI_def Let_def split: if_splits)
qed

text \<open>
  C1. Every RSI value lies in the interval from \<open>0\<close> to \<open>100\<close>
  (\<open>calculateRSI_range\<close> above), and a running \<open>avgLoss\<close> of \<open>0\<close> is meant to give the value
  \<open>100\<close>. The source does not reach it: on sixteen closes that rise by \<open>1\<close> each day (period
  \<open>14\<close>) every change is a gain and \<open>avgLoss\<close> stays \<open>0\<close>; the source then takes
  \<open>rs = 100\<close> and emits \<open>100 - 100 / 101\<close>, which is below \<open>100\<close>.
\<close>

theorem calculateRSI_rising_series:
  "calculateRSI (map (\<lambda>i. \<lparr>date = int i, close = real i\<rparr>) [0..<16]) 14 =
     Returns [\<lparr>date = 15, value = 10000 / 101\<rparr>]
   \<and> (10000 / 101 :: real) < 100"
  by (simp add: calculateRSI_def price_changes_def seed_loop.simps rsi_loop.simps Let_def upt_rec)

text \<open>A series with one small loss in the seed window gets a higher value than the series
  without any loss: the value \<open>rs = 100\<close> is not a cap either.\<close>

lemma calculateRSI_small_loss:
  "calculateRSI [\<lparr>date = 0, close = 1\<rparr>, \<lparr>date = 1, close = 0.999\<rparr>, \<lparr>date = 2, close = 3\<rparr>,
                 \<lparr>date = 3, close = 4\<rparr>] 2 = Returns [\<lparr>date = 3, value = 200050 / 2001\<rparr>]
   \<and> (10000 / 101 :: real) < 200050 / 2001"
  by (simp add: calculateRSI_def price_changes_def seed_loop.simps rsi_loop.simps Let_def upt_rec)

subsection \<open>Pivots of the divergence detector\<close>

lemma low_left_iff:
  "low_left arr i val lbL j \<longleftrightarrow> (\<forall>k. j \<le> k \<and> k \<le> lbL \<longrightarrow> val \<le> arr ! (i - k))"
proof (induction arr i val lbL j rule: low_left.induct)
  case (1 arr i val lbL j)
  show ?case
  proof (cases "j \<le> lbL")
    case False
    then show ?thesis by (subst low_left.simps) auto
  next
    case True
    show ?thesis
    proof (cases "arr ! (i - j) < val")
      case lt: True
      then have "\<not> low_left arr i val lbL j" using True by (subst low_left.simps) simp
      moreover have "\<not> (\<forall>k. j \<le> k \<and> k \<le> lbL \<longrightarrow> val \<le> arr ! (i - k))"
        using lt True by (auto intro!: exI [of _ j])
      ultimately show ?thesis by simp
    next
      case ge: False
      have "low_left arr i val lbL j = low_left arr i val lbL (j + 1)"
        using True ge by (subst low_left.simps) simp
      also have "\<dots> \<longleftrightarrow> (\<forall>k. j + 1 \<le> k \<and> k \<le> lbL \<longrightarrow> val \<le> arr ! (i - k))"
        using "1.IH" [OF True ge] .
      also have "\<dots> \<longleftrightarrow> (\<forall>k. j \<le> k \<and> k \<le> lbL \<longrightarrow> val \<le> arr ! (i - k))"
      proof -
        have "j \<le> k \<longleftrightarrow> k = j \<or> j + 1 \<le> k" for k by auto
        then show ?thesis using ge by auto
      qed
      finally show ?thesis .
    qed
  qed
qed


lemma low_right_iff:
  "low_right arr i val lbR j \<longleftrightarrow> (\<forall>k. j \<le> k \<and> k \<le> lbR \<longrightarrow> val < arr ! (i + k))"
proof (induction arr i val lbR j rule: low_right.induct)
  case (1 arr i val lbR j)
  show ?case
  proof (cases "j \<le> lbR")
    case False
    then show ?thesis by (subst low_right.simps) auto
  next
    case True
    show ?thesis
    proof (cases "arr ! (i + j) \<le> val")
      case lt: True
      then have "\<not> low_right arr i val lbR j" using True by (subst low_right.simps) simp
      moreover have "\<not> (\<forall>k. j \<le> k \<and> k \<le> lbR \<longrightarrow> val < arr ! (i + k))"
        using lt True by (auto intro!: exI [of _ j])
      ultimately show ?thesis by simp
    next
      case ge: False
      have "low_right arr i val lbR j = low_right arr i val lbR (j + 1)"
        using True ge by (subst low_right.simps) simp
      also have "\<dots> \<longleftrightarrow> (\<forall>k. j + 1 \<le> k \<and> k \<le> lbR \<longrightarrow> val < arr ! (i + k))"
        using "1.IH" [OF True ge] .
      also have "\<dots> \<longleftrightarrow> (\<forall>k. j \<le> k \<and> k \<le> lbR \<longrightarrow> val < arr ! (i + k))"
      proof -
        have "j \<le> k \<longleftrightarrow> k = j \<or> j + 1 \<le> k" for k by auto
        then show ?thesis using ge by auto
      qed
      finally show ?thesis .
    qed
  qed
qed

lemma high_left_iff:
  "high_left arr i val lbL j \<longleftrightarrow> (\<forall>k. j \<le> k \<and> k \<le> lbL \<longrightarrow> arr ! (i - k) \<le> val)"
proof (induction arr i val lbL j rule: high_left.induct)
  case (1 arr i val lbL j)
  show ?case
  proof (cases "j \<le> lbL")
    case False
    then show ?thesis by (subst high_left.simps) auto
  next
    case True
    show ?thesis
    proof (cases "arr ! (i - j) > val")
      case lt: True
      then have "\<not> high_left arr i val lbL j" using True by (subst high_left.simps) simp
      moreover have "\<not> (\<forall>k. j \<le> k \<and> k \<le> lbL \<longrightarrow> arr ! (i - k) \<le> val)"
        using lt True by (auto intro!: exI [of _ j])
      ultimately show ?thesis by simp
    next
      case ge: False
      have "high_left arr i val lbL j = high_left arr i val lbL (j + 1)"
        using True ge by (subst high_left.simps) simp
      also have "\<dots> \<longleftrightarrow> (\<forall>k. j + 1 \<le> k \<and> k \<le> lbL \<longrightarrow> arr ! (i - k) \<le> val)"
        using "1.IH" [OF True ge] .
      also have "\<dots> \<longleftrightarrow> (\<forall>k. j \<le> k \<and> k \<le> lbL \<longrightarrow> arr ! (i - k) \<le> val)"
      proof -
        have "j \<le> k \<longleftrightarrow> k = j \<or> j + 1 \<le> k" for k by auto
        then show ?thesis using ge by auto
      qed
      finally show ?thesis .
    qed
  qed
qed

lemma high_right_iff:
  "high_right arr i val lbR j \<longleftrightarrow> (\<forall>k. j \<le> k \<and> k \<le> lbR \<longrightarrow> arr ! (i + k) < val)"
proof (induction arr i val lbR j rule: high_right.induct)
  case (1 arr i val lbR j)
  show ?case
  proof (cases "j \<le> lbR")
    case False
    then show ?thesis by (subst high_right.simps) auto
  next
    case True
    show ?thesis
    proof (cases "arr ! (i + j) \<ge> val")
      case lt: True
      then have "\<not> high_right arr i val lbR j" using True by (subst high_right.simps) simp
      moreover have "\<not> (\<forall>k. j \<le> k \<and> k \<le> lbR \<longrightarrow> arr ! (i + k) < val)"
        using lt True by (auto intro!: exI [of _ j])
      ultimately show ?thesis by simp
    next
      case ge: False
      have "high_right arr i val lbR j = high_right arr i val lbR (j + 1)"
        using True ge by (subst high_right.simps) simp
      also have "\<dots> \<longleftrightarrow> (\<forall>k. j + 1 \<le> k \<and> k \<le> lbR \<longrightarrow> arr ! (i + k) < val)"
        using "1.IH" [OF True ge] .
      also have "\<dots> \<longleftrightarrow> (\<forall>k. j \<le> k \<and> k \<le> lbR \<longrightarrow> arr ! (i + k) < val)"
      proof -
        have "j \<le> k \<longleftrightarrow> k = j \<or> j + 1 \<le> k" for k by auto
        then show ?thesis using ge by auto
      qed
      finally show ?thesis .
    qed
  qed
qed

text \<open>
  C5. For an index \<open>i\<close> with \<open>lbL \<le> i < n - lbR\<close>, \<^verbatim>\<open>isPivotLow\<close> holds exactly when every
  left neighbour within \<open>lbL\<close> bars is at least the value at \<open>i\<close> and every right neighbour
  within \<open>lbR\<close> bars is strictly greater; \<^verbatim>\<open>isPivotHigh\<close> is the mirror image, with left
  neighbours at most the value at \<open>i\<close> and right neighbours strictly less.
\<close>

theorem pivot_rule:
  assumes "lbL \<le> i" "i + lbR < length arr"
  shows "(isPivotLow arr i lbL lbR \<longleftrightarrow>
            (\<forall>j\<in>{1..lbL}. arr ! (i - j) \<ge> arr ! i) \<and> (\<forall>j\<in>{1..lbR}. arr ! (i + j) > arr ! i))
       \<and> (isPivotHigh arr i lbL lbR \<longleftrightarrow>
            (\<forall>j\<in>{1..lbL}. arr ! (i - j) \<le> arr ! i) \<and> (\<forall>j\<in>{1..lbR}. arr ! (i + j) < arr ! i))"
proof -
  have g: "\<not> (i < lbL \<or> length arr \<le> i + lbR)" using assms by simp
  have low: "isPivotLow arr i lbL lbR \<longleftrightarrow>
      low_left arr i (arr ! i) lbL 1 \<and> low_right arr i (arr ! i) lbR 1"
    using g by (simp add: isPivotLow_def Let_def)
  have high: "isPivotHigh arr i lbL lbR \<longleftrightarrow>
      high_left arr i (arr ! i) lbL 1 \<and> high_right arr i (arr ! i) lbR 1"
    using g by (simp add: isPivotHigh_def Let_def)
  show ?thesis
    unfolding low high low_left_iff low_right_iff high_left_iff high_right_iff
    by (simp add: Ball_def)
qed

theorem pivot_rule_witness:
  "(1::nat) \<le> 1 \<and> 1 + 1 < length [1, 1, 2 :: real] \<and>
   isPivotLow [1, 1, 2] 1 1 1 \<and> \<not> isPivotLow [2, 1, 1] 1 1 1 \<and>
   isPivotHigh [2, 2, 1] 1 1 1 \<and> \<not> isPivotHigh [1, 2, 2] 1 1 1"
  using pivot_rule [of 1 1 1 "[1, 1, 2]"] pivot_rule [of 1 1 1 "[2, 1, 1]"]
    pivot_rule [of 1 1 1 "[2, 2, 1]"] pivot_rule [of 1 1 1 "[1, 2, 2]"]
  by simp

subsection \<open>Resampler\<close>

lemma filteri_nths: "filteri (\<lambda>_. q) xs = nths xs {i. q i}"
proof -
  have "zip xs [0..<length xs] = map (\<lambda>(i, x). (x, i)) (zip [0..<length xs] xs)"
    by (subst zip_commute) simp
  then show ?thesis
    by (simp add: filteri_def nths_def enumerate_eq_zip filter_map comp_def case_prod_unfold)
qed

lemma filteri_subseq: "subseq (filteri (\<lambda>_. q) xs) xs"
  unfolding filteri_nths subseq_conv_nths by blast

lemma filteri_hd:
  assumes "xs \<noteq> []" "q 0"
  shows "hd (filteri (\<lambda>_. q) xs) = hd xs \<and> filteri (\<lambda>_. q) xs \<noteq> []"
proof -
  obtain x ys where "xs = x # ys" using assms(1) by (cases xs) auto
  then show ?thesis using assms(2) by (simp add: filteri_nths nths_Cons)
qed

lemma filteri_last:
  assumes "xs \<noteq> []" "q (length xs - 1)"
  shows "last (filteri (\<lambda>_. q) xs) = last xs"
proof -
  define ys where "ys = butlast xs"
  define y where "y = last xs"
  have xs: "xs = ys @ [y]" using assms(1) by (simp add: ys_def y_def)
  have "q (length ys)" using assms(2) by (simp add: xs)
  then have "nths (ys @ [y]) {i. q i} = nths ys {i. q i} @ [y]"
    by (simp add: nths_append)
  then show ?thesis by (simp add: filteri_nths xs)
qed

lemma multiples_below:
  assumes "n \<le> m * s"
  shows "card {i. i < n \<and> i mod s = 0} \<le> m"
proof -
  have "card {i. i < n \<and> i mod s = 0} \<le> card {..<m}"
  proof (rule card_inj_on_le [where f = "\<lambda>i. i div s"])
    show "inj_on (\<lambda>i. i div s) {i. i < n \<and> i mod s = 0}"
      by (rule inj_onI) (metis (mono_tags, lifting) mem_Collect_eq div_mult_mod_eq add.right_neutral)
    have "i div s < m" if "i < n" for i
    proof -
      have "i < m * s" using that assms by simp
      then show ?thesis by (rule less_mult_imp_div_less)
    qed
    then show "(\<lambda>i. i div s) ` {i. i < n \<and> i mod s = 0} \<subseteq> {..<m}"
      by auto
    show "finite {..<m}" by simp
  qed
  then show ?thesis by simp
qed

lemma filteri_length:
  assumes "length xs \<le> m * s"
  shows "length (filteri (\<lambda>_ i. i mod s = 0 \<or> i = length xs - 1) xs) \<le> m + 1"
proof -
  let ?n = "length xs"
  have sub: "{i. i < ?n \<and> i \<in> {i. i mod s = 0 \<or> i = ?n - 1}}
           \<subseteq> insert (?n - 1) {i. i < ?n \<and> i mod s = 0}"
    by auto
  have fin: "finite {i. i < ?n \<and> i mod s = 0}" by simp
  have "length (filteri (\<lambda>_ i. i mod s = 0 \<or> i = ?n - 1) xs)
        = card {i. i < ?n \<and> i \<in> {i. i mod s = 0 \<or> i = ?n - 1}}"
    by (simp only: filteri_nths length_nths)
  also have "\<dots> \<le> card (insert (?n - 1) {i. i < ?n \<and> i mod s = 0})"
    using sub fin by (intro card_mono) simp_all
  also have "\<dots> \<le> card {i. i < ?n \<and> i mod s = 0} + 1"
    using fin by (simp add: card_insert_if)
  also have "\<dots> \<le> m + 1"
    using multiples_below [OF assms] by simp
  finally show ?thesis .
qed

lemma step_covers:
  assumes "0 < m"
  shows "n \<le> m * nat \<lceil>real n / real m\<rceil>"
proof -
  have "0 \<le> real n / real m" by simp
  then have "- 1 < real n / real m" by linarith
  then have c0: "0 \<le> \<lceil>real n / real m\<rceil>" by (simp only: zero_le_ceiling)
  have m0: "0 < real m" using assms by simp
  have "real n / real m \<le> of_int \<lceil>real n / real m\<rceil>" by (rule le_of_int_ceiling)
  then have "real n \<le> of_int \<lceil>real n / real m\<rceil> * real m"
    using m0 by (simp only: pos_divide_le_eq)
  then have "real n \<le> real m * of_int \<lceil>real n / real m\<rceil>"
    by (simp only: mult.commute)
  then have "real n \<le> real (m * nat \<lceil>real n / real m\<rceil>)" using c0 by simp
  then show ?thesis by (simp only: of_nat_le_iff)
qed

text \<open>
  C10. For an array longer than \<open>maxPoints \<ge> 1\<close> the resampler returns a subsequence of the
  input, in the input's order, that starts with the first and ends with the last element
  of the input and has at most \<open>maxPoints + 1\<close> elements; on five elements with
  \<open>maxPoints = 2\<close> it returns three elements, one more than \<open>maxPoints\<close>.
\<close>

theorem resampleData_shape:
  assumes "1 \<le> maxPoints" "maxPoints < length data"
  shows "subseq (resampleData data maxPoints) data
       \<and> resampleData data maxPoints \<noteq> []
       \<and> hd (resampleData data maxPoints) = hd data
       \<and> last (resampleData data maxPoints) = last data
       \<and> length (resampleData data maxPoints) \<le> maxPoints + 1
       \<and> length (resampleData [0, 1, 2, 3, 4 :: nat] 2) = 2 + 1"
proof -
  define step where "step = nat \<lceil>real (length data) / real maxPoints\<rceil>"
  let ?q = "\<lambda>i. i mod step = 0 \<or> i = length data - 1"
  have r: "resampleData data maxPoints = filteri (\<lambda>_. ?q) data"
    using assms by (simp add: resampleData_def step_def Let_def)
  have ne: "data \<noteq> []" using assms(2) by auto
  have "length data \<le> maxPoints * step"
    unfolding step_def using assms(1) by (intro step_covers) simp
  then have len: "length (filteri (\<lambda>_. ?q) data) \<le> maxPoints + 1"
    by (rule filteri_length)
  have ex: "length (resampleData [0, 1, 2, 3, 4 :: nat] 2) = 2 + 1"
    by (simp add: resampleData_def filteri_def enumerate_eq_zip upt_rec)
  have q0: "?q 0" by simp
  have ql: "?q (length data - 1)" by simp
  show ?thesis
    unfolding r
    using filteri_subseq [of ?q data] filteri_hd [OF ne, of ?q, OF q0]
      filteri_last [OF ne, of ?q, OF ql] len ex
    by simp
qed

theorem resampleData_shape_witness:
  "(1::nat) \<le> 2 \<and> 2 < length [10, 11, 12, 13, 14 :: nat] \<and>
   subseq (resampleData [10, 11, 12, 13, 14 :: nat] 2) [10, 11, 12, 13, 14] \<and>
   resampleData [10, 11, 12, 13, 14 :: nat] 2 = [10, 13, 14] \<and>
   hd (resampleData [10, 11, 12, 13, 14 :: nat] 2) = 10 \<and>
   last (resampleData [10, 11, 12, 13, 14 :: nat] 2) = 14 \<and>
   length (resampleData [10, 11, 12, 13, 14 :: nat] 2) = 2 + 1"
  using resampleData_shape [of 2 "[10, 11, 12, 13, 14 :: nat]"]
  by (simp add: resampleData_def filteri_def enumerate_eq_zip upt_rec)

subsection \<open>Fibonacci retracement\<close>

lemma retracement_values_sorted:
  assumes "lo \<le> hi"
  shows "sorted_wrt (\<ge>) (retracement_values hi lo)"
proof -
  define d where "d = hi - lo"
  have d: "0 \<le> d" and lo: "lo = hi - d" using assms by (simp_all add: d_def)
  show ?thesis
    unfolding retracement_values_def d_def [symmetric] lo
    using d by simp
qed

text \<open>
  C9. For an input with at least two numeric closes \<^verbatim>\<open>calculateFibonacci\<close> returns seven
  levels; read from the label \<open>0% (High)\<close> to the label \<open>100% (Low)\<close> (the array in reverse)
  their values never increase, the value at \<open>100% (Low)\<close> is the minimum of the numeric
  closes and the value at \<open>0% (High)\<close> is their maximum.
\<close>

theorem calculateFibonacci_levels:
  assumes "2 \<le> length (numeric_closes data)"
  shows "\<exists>r. calculateFibonacci data = Returns r
           \<and> map level (rev (levels r)) =
               [''0% (High)'', ''23.6%'', ''38.2%'', ''50%'', ''61.8%'', ''78.6%'', ''100% (Low)'']
           \<and> sorted_wrt (\<ge>) (map level_value (rev (levels r)))
           \<and> level (levels r ! 0) = ''100% (Low)''
           \<and> level_value (levels r ! 0) = Min (set (numeric_closes data))
           \<and> level (levels r ! 6) = ''0% (High)''
           \<and> level_value (levels r ! 6) = Max (set (numeric_closes data))"
proof -
  let ?cs = "numeric_closes data"
  have "length ?cs \<le> length data" by (simp add: numeric_closes_def)
  then have n: "\<not> length data < 2" "\<not> length ?cs < 2" using assms by simp_all
  have "set ?cs \<noteq> {}" using assms by auto
  then have "Min (set ?cs) \<le> Max (set ?cs)" by (simp add: Min_le_iff)
  then have "sorted_wrt (\<ge>) (retracement_values (Max (set ?cs)) (Min (set ?cs)))"
    by (rule retracement_values_sorted)
  then show ?thesis using n by (simp add: calculateFibonacci_def Let_def retracement_values_def)
qed

theorem calculateFibonacci_levels_witness:
  "2 \<le> length (numeric_closes [\<lparr>date = 1, raw_close = Num 10\<rparr>, \<lparr>date = 2, raw_close = Other\<rparr>,
                                 \<lparr>date = 3, raw_close = Num 20\<rparr>]) \<and>
   (\<exists>r. calculateFibonacci [\<lparr>date = 1, raw_close = Num 10\<rparr>, \<lparr>date = 2, raw_close = Other\<rparr>,
                              \<lparr>date = 3, raw_close = Num 20\<rparr>] = Returns r
        \<and> map level_value (rev (levels r)) = [20, 17.64, 16.18, 15, 13.82, 12.14, 10]
        \<and> level_value (levels r ! 0) = 10
        \<and> level_value (levels r ! 6) = 20)"
  using calculateFibonacci_levels [of "[\<lparr>date = 1, raw_close = Num 10\<rparr>, \<lparr>date = 2, raw_close = Other\<rparr>,
                              \<lparr>date = 3, raw_close = Num 20\<rparr>]"]
  by (simp add: calculateFibonacci_def numeric_closes_def Let_def)

subsection \<open>Bollinger Bands\<close>

lemma foldl_plus_sum_list:
  fixes g :: "'a \<Rightarrow> real"
  shows "foldl (\<lambda>s v. s + g v) s0 ys = s0 + sum_list (map g ys)"
  by (induction ys arbitrary: s0) (simp_all add: add.assoc)

lemma slice_sum:
  fixes g :: "real \<Rightarrow> real"
  assumes "i < length data" "period \<le> i + 1"
  shows "foldl (\<lambda>s v. s + g v) 0 (map close (slice data (i + 1 - period) (i + 1)))
         = (\<Sum>k = i + 1 - period..i. g (close (data ! k)))"
proof -
  let ?a = "i + 1 - period"
  let ?ys = "take period (drop ?a data)"
  have len: "length ?ys = period" using assms by simp
  have sl: "slice data ?a (i + 1) = ?ys" using assms by (simp add: slice_def)
  have "foldl (\<lambda>s v. s + g v) 0 (map close ?ys) = sum_list (map (\<lambda>d. g (close d)) ?ys)"
    by (simp add: foldl_plus_sum_list comp_def)
  also have "\<dots> = (\<Sum>j = 0..<period. g (close (?ys ! j)))"
    using len by (simp add: sum_list_sum_nth)
  also have "\<dots> = (\<Sum>j = 0..<period. g (close (data ! (j + ?a))))"
    using assms by (intro sum.cong) (simp_all add: add.commute)
  also have "\<dots> = (\<Sum>k = 0 + ?a..<period + ?a. g (close (data ! k)))"
    by (rule sum.shift_bounds_nat_ivl [symmetric])
  also have "\<dots> = (\<Sum>k = ?a..i. g (close (data ! k)))"
  proof -
    have "period + ?a = Suc i" using assms by simp
    then show ?thesis by (simp add: atLeastLessThanSuc_atLeastAtMost)
  qed
  finally show ?thesis using sl by simp
qed

lemma calculateSD_window:
  assumes "i < length data" "period \<le> i + 1" "0 < period"
  shows "calculateSD (map close (slice data (i + 1 - period) (i + 1))) = population_sd data period i"
proof -
  let ?sl = "map close (slice data (i + 1 - period) (i + 1))"
  have len: "length ?sl = period" using assms by (simp add: slice_def)
  have mean: "foldl (\<lambda>s v. s + v) 0 ?sl / real (length ?sl) = trailing_mean data period i"
    using slice_sum [OF assms(1,2), of "\<lambda>v. v"] len by (simp add: trailing_mean_def)
  show ?thesis
    unfolding calculateSD_def Let_def mean
    using slice_sum [OF assms(1,2), of "\<lambda>v. (v - trailing_mean data period i) ^ 2"] len
    by (simp add: population_sd_def)
qed

lemma middle_window:
  assumes "i < length data" "period \<le> i + 1"
  shows "foldl (\<lambda>s v. s + v) 0 (map close (slice data (i + 1 - period) (i + 1))) / real period
         = trailing_mean data period i"
  using slice_sum [OF assms, of "\<lambda>v. v"] by (simp add: trailing_mean_def)

text \<open>
  C8. At every index at which the Bollinger Bands are defined, \<open>upper - lower\<close> is
  \<open>2 * devs * \<sigma>\<close> with \<open>\<sigma>\<close> the population standard deviation of the closes in the
  trailing window of size \<open>period\<close>, and \<open>middle\<close> is the value of \<^verbatim>\<open>calculateSMA\<close> with the
  same period at that index (the two outputs have the same length and the same dates).
\<close>

theorem calculateBollingerBands_width:
  assumes "0 < period" "period \<le> length data"
  shows "\<exists>bb sma. calculateBollingerBands data period devs = Returns bb
           \<and> calculateSMA data period = Returns sma
           \<and> length bb = length data - (period - 1)
           \<and> length sma = length bb
           \<and> (\<forall>k < length bb.
                 date (bb ! k) = date (data ! (k + (period - 1)))
               \<and> date (sma ! k) = date (bb ! k)
               \<and> upper (bb ! k) - lower (bb ! k)
                   = 2 * devs * population_sd data period (k + (period - 1))
               \<and> middle (bb ! k) = value (sma ! k))"
proof -
  define F where "F = (\<lambda>i. let slice = map close (slice data (i + 1 - period) (i + 1));
                      middle = foldl (\<lambda>s v. s + v) 0 slice / real period;
                      sd = calculateSD slice
                  in \<lparr>date = date (data ! i), upper = middle + devs * sd, middle = middle,
                      lower = middle - devs * sd\<rparr>)"
  define G where "G = (\<lambda>i. \<lparr>date = date (data ! i), value = trailing_mean data period i\<rparr>)"
  define bb where "bb = map F [period - 1..<length data]"
  define sma where "sma = map G [period - 1..<length data]"
  have b: "calculateBollingerBands data period devs = Returns bb"
    using assms by (simp add: calculateBollingerBands_def bb_def F_def)
  have s: "calculateSMA data period = Returns sma"
    using assms by (simp add: calculateSMA_def sma_loop_from_start sma_def G_def)
  have lb: "length bb = length data - (period - 1)" by (simp add: bb_def)
  have ls: "length sma = length bb" by (simp add: bb_def sma_def)
  have pt: "date (bb ! k) = date (data ! (k + (period - 1)))
          \<and> date (sma ! k) = date (bb ! k)
          \<and> upper (bb ! k) - lower (bb ! k) = 2 * devs * population_sd data period (k + (period - 1))
          \<and> middle (bb ! k) = value (sma ! k)" if k: "k < length bb" for k
  proof -
    let ?i = "k + (period - 1)"
    have i: "?i < length data" "period \<le> ?i + 1" using k lb assms by simp_all
    have bk: "bb ! k = F ?i" using k lb by (simp add: bb_def add.commute)
    have sk: "sma ! k = G ?i" using k lb by (simp add: sma_def add.commute)
    have sd: "calculateSD (map close (slice data (?i + 1 - period) (?i + 1))) = population_sd data period ?i"
      using i assms(1) by (rule calculateSD_window)
    have mid: "foldl (\<lambda>s v. s + v) 0 (map close (slice data (?i + 1 - period) (?i + 1))) / real period
               = trailing_mean data period ?i"
      using i by (rule middle_window)
    show ?thesis
      unfolding bk sk F_def G_def Let_def sd mid by simp
  qed
  show ?thesis using b s lb ls pt by blast
qed

lemma calculateBollingerBands_example:
  "calculateBollingerBands [\<lparr>date = 1, close = 1\<rparr>, \<lparr>date = 2, close = 3\<rparr>,
                            \<lparr>date = 3, close = 7\<rparr>] 2 2 =
     Returns [\<lparr>date = 2, upper = 4, middle = 2, lower = 0\<rparr>,
              \<lparr>date = 3, upper = 9, middle = 5, lower = 1\<rparr>]"
  by (simp add: calculateBollingerBands_def calculateSD_def slice_def Let_def upt_rec
      power2_eq_square)

theorem calculateBollingerBands_width_witness:
  "(0::nat) < 2 \<and>
   2 \<le> length [\<lparr>date = 1, close = 1\<rparr>, \<lparr>date = 2, close = 3\<rparr>, \<lparr>date = 3, close = 7 :: real\<rparr>] \<and>
   (\<exists>bb sma. calculateBollingerBands [\<lparr>date = 1, close = 1\<rparr>, \<lparr>date = 2, close = 3\<rparr>,
                                         \<lparr>date = 3, close = 7\<rparr>] 2 2 = Returns bb
      \<and> calculateSMA [\<lparr>date = 1, close = 1\<rparr>, \<lparr>date = 2, close = 3\<rparr>, \<lparr>date = 3, close = 7\<rparr>] 2
          = Returns sma
      \<and> bb = [\<lparr>date = 2, upper = 4, middle = 2, lower = 0\<rparr>,
                \<lparr>date = 3, upper = 9, middle = 5, lower = 1\<rparr>]
      \<and> length sma = 2
      \<and> upper (bb ! 1) - lower (bb ! 1)
          = 2 * 2 * population_sd [\<lparr>date = 1, close = 1\<rparr>, \<lparr>date = 2, close = 3\<rparr>,
                                   \<lparr>date = 3, close = 7\<rparr>] 2 2
      \<and> middle (bb ! 1) = value (sma ! 1))"
proof -
  let ?d = "[\<lparr>date = 1, close = 1\<rparr>, \<lparr>date = 2, close = 3\<rparr>, \<lparr>date = 3, close = 7 :: real\<rparr>]"
  have h: "(0::nat) < 2" "2 \<le> length ?d" by simp_all
  obtain bb sma where r: "calculateBollingerBands ?d 2 2 = Returns bb"
      "calculateSMA ?d 2 = Returns sma" "length bb = length ?d - (2 - 1)" "length sma = length bb"
    and pt: "\<forall>k < length bb.
                 date (bb ! k) = date (?d ! (k + (2 - 1)))
               \<and> date (sma ! k) = date (bb ! k)
               \<and> upper (bb ! k) - lower (bb ! k) = 2 * 2 * population_sd ?d 2 (k + (2 - 1))
               \<and> middle (bb ! k) = value (sma ! k)"
    using calculateBollingerBands_width [OF h, of 2] by blast
  have l: "length bb = 2" "length sma = 2" using r(3,4) by simp_all
  then have "1 < length bb" by simp
  then have x: "upper (bb ! 1) - lower (bb ! 1) = 2 * 2 * population_sd ?d 2 (1 + (2 - 1))
             \<and> middle (bb ! 1) = value (sma ! 1)"
    using pt by blast
  have e: "(1::nat) + (2 - 1) = 2" by simp
  have "bb = [\<lparr>date = 2, upper = 4, middle = 2, lower = 0\<rparr>,
              \<lparr>date = 3, upper = 9, middle = 5, lower = 1\<rparr>]"
    using r(1) calculateBollingerBands_example by simp
  then show ?thesis using h r(1,2) l x [unfolded e] by blast
qed

subsection \<open>Golden and death cross zones\<close>

lemma contiguous_snoc:
  "contiguous (zs @ [z]) \<longleftrightarrow> contiguous zs \<and> (zs \<noteq> [] \<longrightarrow> end (last zs) = start z)"
  by (induction zs rule: contiguous.induct) auto

lemma dates_increase:
  assumes "sorted_wrt (<) (map date data)" "j < i" "i < length data"
  shows "date (data ! j) < date (data ! i)"
  using sorted_wrt_nth_less [OF assms(1), of j i] assms(2,3) by simp

lemma zone_inv_mono: "zone_inv data i st \<Longrightarrow> i \<le> k \<Longrightarrow> zone_inv data k st"
  unfolding zone_inv_def by (meson less_le_trans)

lemma zone_inv_None: "zone_inv data i st \<Longrightarrow> zoneStart st = None \<Longrightarrow> zones st = []"
  unfolding zone_inv_def by auto

lemma zone_inv_push:
  assumes srt: "sorted_wrt (<) (map date data)" and i: "i < length data"
    and inv: "zone_inv data i st" and zs: "zoneStart st = Some s"
  shows "zone_inv data (Suc i)
           (st\<lparr>signals := sg,
               zones := zones st @ [\<lparr>start = s, end = date (data ! i), type = t\<rparr>],
               zoneStart := Some (date (data ! i)), currentZoneType := c\<rparr>)"
proof -
  from inv zs obtain j where j: "j < i" "s = date (data ! j)"
    and le: "\<forall>z\<in>set (zones st). end z \<le> s"
    unfolding zone_inv_def by blast
  have lt: "s < date (data ! i)" using dates_increase [OF srt j(1) i] j(2) by simp
  have la: "zones st \<noteq> [] \<longrightarrow> end (last (zones st)) = s"
    using inv zs unfolding zone_inv_def by auto
  have le2: "\<forall>z\<in>set (zones st). end z \<le> date (data ! i)"
    using le lt by fastforce
  show ?thesis
    using inv le lt la le2 unfolding zone_inv_def
    by (auto simp: sorted_wrt_append contiguous_snoc)
qed

lemma zone_inv_open:
  assumes inv: "zone_inv data i st" and zs: "zoneStart st = None"
  shows "zone_inv data (Suc i)
           (st\<lparr>signals := sg, zones := zones st,
               zoneStart := Some (date (data ! i)), currentZoneType := c\<rparr>)"
    and "zone_inv data (Suc i) (st\<lparr>zoneStart := Some (date (data ! i)), currentZoneType := c\<rparr>)"
  using zone_inv_None [OF inv zs] unfolding zone_inv_def by auto

lemma cross_step_inv:
  assumes srt: "sorted_wrt (<) (map date data)" and i: "i < length data"
    and inv: "zone_inv data i st"
  shows "zone_inv data (Suc i) (cross_step data m50 m200 i st)"
proof -
  note keep = zone_inv_mono [OF inv, of "Suc i"]
  show ?thesis
    unfolding cross_step_def Let_def
    using keep zone_inv_push [OF srt i inv] zone_inv_open [OF inv]
    by (auto split: option.splits)
qed

lemma cross_loop_inv:
  assumes srt: "sorted_wrt (<) (map date data)"
  shows "zone_inv data i st \<Longrightarrow>
         zone_inv data (max i (length data)) (cross_loop data m50 m200 i st)"
proof (induction "length data - i" arbitrary: i st)
  case 0
  then have "\<not> i < length data" by simp
  then show ?case using "0.prems" by (subst cross_loop.simps) (simp add: max_def)
next
  case (Suc d)
  then have lt: "i < length data" and d: "d = length data - Suc i" by simp_all
  have "zone_inv data (Suc i) (cross_step data m50 m200 i st)"
    using srt lt Suc.prems by (rule cross_step_inv)
  then have "zone_inv data (max (Suc i) (length data))
               (cross_loop data m50 m200 (Suc i) (cross_step data m50 m200 i st))"
    using Suc.hyps(1) [OF d] by simp
  moreover have "max (Suc i) (length data) = max i (length data)" using lt by simp
  ultimately show ?case using lt by (subst cross_loop.simps) simp
qed

lemma zones_final:
  assumes srt: "sorted_wrt (<) (map date data)"
    and inv: "zone_inv data (max 1 (length data)) st"
    and n0: "length data = 0 \<longrightarrow> zoneStart st = None"
  defines "zs \<equiv> (case zoneStart st of
                     Some s \<Rightarrow>
                       if length data > 0
                       then zones st @ [\<lparr>start = s, end = date (data ! (length data - 1)),
                                         type = currentZoneType st\<rparr>]
                       else zones st
                   | None \<Rightarrow> zones st)"
  shows "sorted_wrt (\<lambda>a c. start a < start c) zs \<and> contiguous zs
       \<and> sorted_wrt (\<lambda>a c. end a \<le> start c) zs \<and> (\<forall>z\<in>set zs. start z \<le> end z)
       \<and> (zs \<noteq> [] \<longrightarrow> end (last zs) = date (last data))"
proof (cases "zoneStart st")
  case None
  then have "zs = []" using zone_inv_None [OF inv] by (simp add: zs_def)
  then show ?thesis by simp
next
  case (Some s)
  then have n: "0 < length data" using n0 by auto
  then have "1 \<le> length data" by (simp add: Suc_le_eq)
  then have mx: "max 1 (length data) = length data" by (rule max_absorb2)
  from inv Some obtain j where j: "j < length data" "s = date (data ! j)"
    and le: "\<forall>z\<in>set (zones st). end z \<le> s"
    unfolding zone_inv_def mx by blast
  have i1: "sorted_wrt (\<lambda>a c. end a \<le> start c) (zones st)"
    and i2: "\<forall>z\<in>set (zones st). start z < end z"
    and i3: "contiguous (zones st)"
    and i4: "zones st \<noteq> [] \<longrightarrow> end (last (zones st)) = s"
    using inv Some unfolding zone_inv_def by auto
  have se: "s \<le> date (data ! (length data - 1))"
  proof (cases "j = length data - 1")
    case True
    then show ?thesis using j(2) by simp
  next
    case False
    then have "j < length data - 1" using j(1) by simp
    then show ?thesis using dates_increase [OF srt, of j "length data - 1"] n j(2) by simp
  qed
  have st: "sorted_wrt (\<lambda>a c. start a < start c) (zones st)"
    using i1 i2 by (rule_tac sorted_wrt_mono_rel [of "zones st" "\<lambda>a c. end a \<le> start c"]) fastforce+
  have lst: "\<forall>z\<in>set (zones st). start z < s" using i2 le by fastforce
  have zs: "zs = zones st @ [\<lparr>start = s, end = date (data ! (length data - 1)),
                                type = currentZoneType st\<rparr>]"
    using Some n by (simp add: zs_def)
  have ld: "last data = data ! (length data - 1)" using n by (simp add: last_conv_nth)
  show ?thesis
    unfolding zs ld
    using i1 i2 i3 i4 se st lst le
    by (auto simp: sorted_wrt_append contiguous_snoc intro: less_imp_le)
qed

text \<open>
  C4. On a series with strictly ascending dates, the zones that
  \<^verbatim>\<open>calculateGoldenDeathCross\<close> returns are ordered by start date, contiguous (each zone ends
  on the date on which the next one starts) and non-overlapping (a zone ends no later than
  any later zone starts, and no zone ends before it starts), and the last zone ends on
  the last date of the series.
\<close>

theorem golden_death_zones:
  assumes "sorted_wrt (<) (map date data)"
  shows "sorted_wrt (\<lambda>a c. start a < start c) (zones (calculateGoldenDeathCross data sma50List sma200List))
       \<and> contiguous (zones (calculateGoldenDeathCross data sma50List sma200List))
       \<and> sorted_wrt (\<lambda>a c. end a \<le> start c) (zones (calculateGoldenDeathCross data sma50List sma200List))
       \<and> (\<forall>z\<in>set (zones (calculateGoldenDeathCross data sma50List sma200List)). start z \<le> end z)
       \<and> (zones (calculateGoldenDeathCross data sma50List sma200List) \<noteq> [] \<longrightarrow>
            end (last (zones (calculateGoldenDeathCross data sma50List sma200List))) = date (last data))"
proof (cases "\<exists>l50 l200. sma50List = Some l50 \<and> sma200List = Some l200")
  case False
  then have "zones (calculateGoldenDeathCross data sma50List sma200List) = []"
    by (auto simp: calculateGoldenDeathCross_def split: option.splits)
  then show ?thesis by simp
next
  case True
  then obtain l50 l200 where l: "sma50List = Some l50" "sma200List = Some l200" by blast
  define init :: crossState
    where "init = \<lparr>signals = [], zones = [], zoneStart = None, currentZoneType = None\<rparr>"
  define st where "st = cross_loop data (new_Map (entries l50)) (new_Map (entries l200)) 1 init"
  have "zone_inv data 1 init" by (simp add: zone_inv_def init_def)
  then have inv: "zone_inv data (max 1 (length data)) st"
    unfolding st_def using assms by (intro cross_loop_inv)
  have n0: "length data = 0 \<longrightarrow> zoneStart st = None"
    unfolding st_def by (subst cross_loop.simps) (simp add: init_def)
  have "zones (calculateGoldenDeathCross data sma50List sma200List) =
      (case zoneStart st of
         Some s \<Rightarrow>
           if length data > 0
           then zones st @ [\<lparr>start = s, end = date (data ! (length data - 1)),
                             type = currentZoneType st\<rparr>]
           else zones st
       | None \<Rightarrow> zones st)"
    unfolding calculateGoldenDeathCross_def l st_def init_def Let_def
    by (simp only: option.case prod.case crossResult.select_convs)
  then show ?thesis using zones_final [OF assms inv n0] by simp
qed

text \<open>A run with a golden cross on date \<open>2\<close> and a death cross on date \<open>3\<close>.\<close>

lemma golden_death_example:
  "zones (calculateGoldenDeathCross
            [\<lparr>date = 0, close = 10\<rparr>, \<lparr>date = 1, close = 11\<rparr>, \<lparr>date = 2, close = 12\<rparr>,
             \<lparr>date = 3, close = 13\<rparr>, \<lparr>date = 4, close = 14\<rparr>]
            (Some [\<lparr>date = 1, value = 1\<rparr>, \<lparr>date = 2, value = 3\<rparr>, \<lparr>date = 3, value = 1\<rparr>,
                   \<lparr>date = 4, value = 1\<rparr>])
            (Some [\<lparr>date = 1, value = 2\<rparr>, \<lparr>date = 2, value = 2\<rparr>, \<lparr>date = 3, value = 2\<rparr>,
                   \<lparr>date = 4, value = 2\<rparr>]))
     = [\<lparr>start = 2, end = 3, type = Some golden\<rparr>, \<lparr>start = 3, end = 4, type = Some death\<rparr>]"
  by code_simp

theorem golden_death_zones_witness:
  "sorted_wrt (<) (map date [\<lparr>date = 0, close = 10\<rparr>, \<lparr>date = 1, close = 11\<rparr>, \<lparr>date = 2, close = 12\<rparr>,
                             \<lparr>date = 3, close = 13\<rparr>, \<lparr>date = 4, close = 14 :: real\<rparr>]) \<and>
   zones (calculateGoldenDeathCross
            [\<lparr>date = 0, close = 10\<rparr>, \<lparr>date = 1, close = 11\<rparr>, \<lparr>date = 2, close = 12\<rparr>,
             \<lparr>date = 3, close = 13\<rparr>, \<lparr>date = 4, close = 14\<rparr>]
            (Some [\<lparr>date = 1, value = 1\<rparr>, \<lparr>date = 2, value = 3\<rparr>, \<lparr>date = 3, value = 1\<rparr>,
                   \<lparr>date = 4, value = 1\<rparr>])
            (Some [\<lparr>date = 1, value = 2\<rparr>, \<lparr>date = 2, value = 2\<rparr>, \<lparr>date = 3, value = 2\<rparr>,
                   \<lparr>date = 4, value = 2\<rparr>]))
     = [\<lparr>start = 2, end = 3, type = Some golden\<rparr>, \<lparr>start = 3, end = 4, type = Some death\<rparr>] \<and>
   contiguous [\<lparr>start = 2, end = 3, type = Some golden\<rparr>, \<lparr>start = 3, end = 4, type = Some death\<rparr>] \<and>
   end (last [\<lparr>start = 2, end = 3, type = Some golden\<rparr>, \<lparr>start = 3, end = 4, type = Some death\<rparr>])
     = date (last [\<lparr>date = 0, close = 10\<rparr>, \<lparr>date = 1, close = 11\<rparr>, \<lparr>date = 2, close = 12\<rparr>,
                   \<lparr>date = 3, close = 13\<rparr>, \<lparr>date = 4, close = 14 :: real\<rparr>])"
  using golden_death_example
    golden_death_zones [of "[\<lparr>date = 0, close = 10\<rparr>, \<lparr>date = 1, close = 11\<rparr>,
             \<lparr>date = 2, close = 12\<rparr>, \<lparr>date = 3, close = 13\<rparr>, \<lparr>date = 4, close = 14\<rparr>]"
            "Some [\<lparr>date = 1, value = 1\<rparr>, \<lparr>date = 2, value = 3\<rparr>, \<lparr>date = 3, value = 1\<rparr>,
                   \<lparr>date = 4, value = 1\<rparr>]"
            "Some [\<lparr>date = 1, value = 2\<rparr>, \<lparr>date = 2, value = 2\<rparr>, \<lparr>date = 3, value = 2\<rparr>,
                   \<lparr>date = 4, value = 2\<rparr>]"]
  by simp

subsection \<open>The year of a day number\<close>

lemma div_lower: "0 < k \<Longrightarrow> k * (a div k) \<le> (a::int)"
proof -
  assume k: "0 < k"
  have "a = k * (a div k) + a mod k" by simp
  moreover have "0 \<le> a mod k" using k by simp
  ultimately show ?thesis by linarith
qed

lemma div_upper: "0 < k \<Longrightarrow> (a::int) < k * (a div k) + k"
proof -
  assume k: "0 < k"
  have "a = k * (a div k) + a mod k" by simp
  moreover have "a mod k < k" using k by simp
  ultimately show ?thesis by linarith
qed

lemma DayFromYear_expand:
  "DayFromYear y = 365 * y - 719050 + (y - 1969) div 4 - (y - 1901) div 100 + (y - 1601) div 400"
  by (simp add: DayFromYear_def)

lemma DayFromYear_step: "DayFromYear y < DayFromYear (y + 1)"
proof -
  define A where "A = (y - 1969) div 4"
  define B where "B = (y - 1901) div 100"
  define C where "C = (y - 1601) div 400"
  define A' where "A' = (y + 1 - 1969) div 4"
  define B' where "B' = (y + 1 - 1901) div 100"
  define C' where "C' = (y + 1 - 1601) div 400"
  have a: "A \<le> A'" unfolding A_def A'_def by (rule zdiv_mono1) simp_all
  have c: "C \<le> C'" unfolding C_def C'_def by (rule zdiv_mono1) simp_all
  have "(y + 1 - 1901) div 100 \<le> (y - 1901 + 100) div 100" by (rule zdiv_mono1) simp_all
  then have b: "B' \<le> B + 1" unfolding B_def B'_def by simp
  have f: "DayFromYear y = 365 * y - 719050 + A - B + C"
    by (simp only: DayFromYear_expand A_def B_def C_def)
  have "DayFromYear (y + 1) = 365 * (y + 1) - 719050 + A' - B' + C'"
    by (simp only: DayFromYear_expand A'_def B'_def C'_def)
  then have f': "DayFromYear (y + 1) = 365 * y + 365 - 719050 + A' - B' + C'"
    by (simp only: distrib_left mult_1_right)
  show ?thesis unfolding f f' using a b c by linarith
qed

lemma YearFromDay_correct:
  "DayFromYear (YearFromDay dy) \<le> dy \<and> dy < DayFromYear (YearFromDay dy + 1)"
proof -
  define q where "q = (400 * dy) div 146097"
  have q1: "146097 * q \<le> 400 * dy" unfolding q_def by (rule div_lower) simp
  have q2: "400 * dy < 146097 * q + 146097" unfolding q_def by (rule div_upper) simp
  have lo: "DayFromYear (1970 + q - 1) \<le> dy"
  proof -
    define y where "y = 1970 + q - 1"
    define A where "A = (y - 1969) div 4"
    define B where "B = (y - 1901) div 100"
    define C where "C = (y - 1601) div 400"
    have "4 * A \<le> y - 1969" unfolding A_def by (rule div_lower) simp
    moreover have "y - 1901 < 100 * B + 100" unfolding B_def by (rule div_upper) simp
    moreover have "400 * C \<le> y - 1601" unfolding C_def by (rule div_lower) simp
    moreover have "DayFromYear y = 365 * y - 719050 + A - B + C"
      by (simp only: DayFromYear_expand A_def B_def C_def)
    moreover have "y = q + 1969" by (simp add: y_def)
    ultimately have "DayFromYear y \<le> dy" using q1 by linarith
    then show ?thesis by (simp only: y_def)
  qed
  have hi: "dy < DayFromYear (1970 + q + 1 + 1)"
  proof -
    define y where "y = 1970 + q + 1 + 1"
    define A where "A = (y - 1969) div 4"
    define B where "B = (y - 1901) div 100"
    define C where "C = (y - 1601) div 400"
    have "y - 1969 < 4 * A + 4" unfolding A_def by (rule div_upper) simp
    moreover have "100 * B \<le> y - 1901" unfolding B_def by (rule div_lower) simp
    moreover have "y - 1601 < 400 * C + 400" unfolding C_def by (rule div_upper) simp
    moreover have "DayFromYear y = 365 * y - 719050 + A - B + C"
      by (simp only: DayFromYear_expand A_def B_def C_def)
    moreover have "y = q + 1972" by (simp add: y_def)
    ultimately have "dy < DayFromYear y" using q2 by linarith
    then show ?thesis by (simp only: y_def)
  qed
  show ?thesis
    unfolding YearFromDay_def Let_def q_def [symmetric]
    using lo hi by auto
qed


subsection \<open>Decimal strings are injective\<close>









subsection \<open>Week keys\<close>














text \<open>
  Inside the daylight saving period the cut is not at the local Saturday midnight. On the
  London host Friday 5 July 2024 \<open>00:00\<close> UTC and Saturday 6 July 2024 \<open>00:00\<close> UTC (local
  Saturday \<open>01:00\<close>) get the same key, since 1 January is taken in winter time; a host
  that is an hour ahead of UTC all year separates the two.
\<close>

lemma week_key_summer_example:
  "getPeriodKey london_host week 1720137600000 = ''2024-W27''"
  "getPeriodKey london_host week 1720224000000 = ''2024-W27''"
  "getDay london_host 1720224000000 = 6"
  "LocalTime london_host 1720224000000 = 1720224000000 + 3600000"
  "getPeriodKey (\<lambda>t isUTC. 3600000) week 1720137600000 = ''2024-W27''"
  "getPeriodKey (\<lambda>t isUTC. 3600000) week 1720224000000 = ''2024-W28''"
  by code_simp+

end
